theory Spec2Isabelle
  imports Main "HOL-Library.Finite_Map"
begin

section \<open>Documents and schemas\<close>

text \<open>
  The values that \<^verbatim>\<open>yaml.safe_load\<close> hands to the library: scalars, sequences and
  mappings. A Python dict is a finite map (equality does not depend on insertion order);
  mapping keys are strings, and floats are left out.
\<close>

datatype yaml =
    YNull
  | YBool bool
  | YInt int
  | YStr string
  | YSeq "yaml list"
  | YMap "(string, yaml) fmap"

text \<open>
  The JSON-schema keywords that the two schema constants of the source use:
  \<^verbatim>\<open>type\<close>, \<^verbatim>\<open>properties\<close>, \<^verbatim>\<open>patternProperties\<close> and \<^verbatim>\<open>required\<close>.
\<close>

datatype json_type = TObject | TString | TInteger

datatype schema =
  Schema (s_type: json_type)
         (s_properties: "(string \<times> schema) list")
         (s_patternProperties: "(string \<times> schema) list")
         (s_required: "string list")

definition str_schema :: schema where
  "str_schema = Schema TString [] [] []"

definition int_schema :: schema where
  "int_schema = Schema TInteger [] [] []"

definition INGRESS_REQUIRES_UNIT_SCHEMA :: schema where
  "INGRESS_REQUIRES_UNIT_SCHEMA =
     Schema TObject
       [(''model'', str_schema), (''name'', str_schema),
        (''host'', str_schema), (''port'', int_schema)]
       []
       [''model'', ''name'', ''host'', ''port'']"

text \<open>The schema of one entry of the aggregate, which the pattern \<^verbatim>\<open>""\<close> selects.\<close>

definition url_entry_schema :: schema where
  "url_entry_schema =
     Schema TObject
       [(''_supported_versions'', str_schema), (''url'', str_schema)]
       []
       [''url'']"

definition INGRESS_PROVIDES_APP_SCHEMA :: schema where
  "INGRESS_PROVIDES_APP_SCHEMA =
     Schema TObject
       [(''ingress'', Schema TObject [] [('''', url_entry_schema)] [])]
       []
       [''ingress'']"

text \<open>
  \<^verbatim>\<open>re.search(pattern, key)\<close> for a pattern without metacharacters: the pattern occurs
  somewhere in the key. The only pattern of the source is the empty one, which every key
  matches.
\<close>

fun starts_with :: "string \<Rightarrow> string \<Rightarrow> bool" where
  "starts_with [] s = True"
| "starts_with (p # ps) [] = False"
| "starts_with (p # ps) (c # cs) = (p = c \<and> starts_with ps cs)"

fun re_search :: "string \<Rightarrow> string \<Rightarrow> bool" where
  "re_search pat [] = (pat = [])"
| "re_search pat (c # cs) = (starts_with pat (c # cs) \<or> re_search pat cs)"

fun type_ok :: "json_type \<Rightarrow> yaml \<Rightarrow> bool" where
  "type_ok TObject (YMap m) = True"
| "type_ok TString (YStr s) = True"
| "type_ok TInteger (YInt i) = True"
| "type_ok t v = False"

text \<open>
  \<^verbatim>\<open>jsonschema.validate\<close> on these keywords: the type must fit, and the keywords about
  properties constrain an instance only when it is an object.
\<close>

fun is_valid :: "schema \<Rightarrow> yaml \<Rightarrow> bool" where
  "is_valid (Schema ty props pprops req) inst =
     (type_ok ty inst \<and>
      (case inst of
         YMap m \<Rightarrow>
           (\<forall>(p, s) \<in> set props.
              case fmlookup m p of None \<Rightarrow> True | Some v \<Rightarrow> is_valid s v) \<and>
           (\<forall>(pat, s) \<in> set pprops.
              fmpred (\<lambda>k v. re_search pat k \<longrightarrow> is_valid s v) m) \<and>
           (\<forall>p \<in> set req. p \<in> fmdom' m)
       | _ \<Rightarrow> True))"

section \<open>Relations, databags and errors\<close>

datatype application = Application (app_name: string)

datatype juju_unit = Unit (u_name: string) (u_app: application)

datatype entity = EApp application | EUnit juju_unit

type_synonym databag = "string \<rightharpoonup> string"

text \<open>
  A relation as the library sees it: the remote application (\<open>None\<close> while the
  relation is breaking), the related units in the order in which iteration visits
  them, and one databag per entity that takes part.
\<close>

record relation =
  rel_name :: string
  rel_id :: int
  app :: "application option"
  units :: "juju_unit list"
  data :: "entity \<rightharpoonup> databag"

datatype error =
    DataValidationError yaml schema
  | RelationDataMismatchError relation juju_unit
  | RelationPermissionError relation juju_unit string
  | RelationDataAccessError
  | AttributeError
  | KeyError
  | TypeError
  | YAMLError

text \<open>
  The YAML library is not part of the repository: its loader and dumper are parameters
  of every function that calls them. The loader raises on malformed text (\<open>None\<close>).
\<close>

record yaml_lib =
  safe_load :: "string \<Rightarrow> yaml option"
  safe_dump :: "yaml \<Rightarrow> string"

definition deserialize_data :: "yaml_lib \<Rightarrow> string \<Rightarrow> error + yaml" where
  "deserialize_data Y raw =
     (case safe_load Y raw of None \<Rightarrow> Inl YAMLError | Some d \<Rightarrow> Inr d)"

definition serialize_data :: "yaml_lib \<Rightarrow> yaml \<Rightarrow> string" where
  "serialize_data Y d = safe_dump Y d"

definition validate_data :: "yaml \<Rightarrow> schema \<Rightarrow> error + unit" where
  "validate_data d sch =
     (if is_valid sch d then Inr () else Inl (DataValidationError d sch))"

text \<open>Python helpers: truth values, \<^verbatim>\<open>dict.get\<close>, \<^verbatim>\<open>in\<close> and indexing.\<close>

fun truthy :: "yaml \<Rightarrow> bool" where
  "truthy YNull = False"
| "truthy (YBool b) = b"
| "truthy (YInt i) = (i \<noteq> 0)"
| "truthy (YStr s) = (s \<noteq> [])"
| "truthy (YSeq xs) = (xs \<noteq> [])"
| "truthy (YMap m) = (m \<noteq> fmempty)"

definition truthy_raw :: "string option \<Rightarrow> bool" where
  "truthy_raw raw = (case raw of None \<Rightarrow> False | Some t \<Rightarrow> t \<noteq> [])"

fun dict_get :: "yaml \<Rightarrow> string \<Rightarrow> yaml \<Rightarrow> error + yaml" where
  "dict_get (YMap m) k dflt = Inr (case fmlookup m k of None \<Rightarrow> dflt | Some v \<Rightarrow> v)"
| "dict_get d k dflt = Inl AttributeError"

fun py_contains :: "string \<Rightarrow> yaml \<Rightarrow> error + bool" where
  "py_contains k (YMap m) = Inr (k \<in> fmdom' m)"
| "py_contains k (YStr s) = Inr (re_search k s)"
| "py_contains k (YSeq xs) = Inr (YStr k \<in> set xs)"
| "py_contains k d = Inl TypeError"

fun py_getitem :: "yaml \<Rightarrow> string \<Rightarrow> error + yaml" where
  "py_getitem (YMap m) k = (case fmlookup m k of None \<Rightarrow> Inl KeyError | Some v \<Rightarrow> Inr v)"
| "py_getitem d k = Inl TypeError"

definition databag_of :: "relation \<Rightarrow> entity \<Rightarrow> error + databag" where
  "databag_of relation e =
     (case data relation e of None \<Rightarrow> Inl KeyError | Some bag \<Rightarrow> Inr bag)"

text \<open>\<^verbatim>\<open>any(map(f, xs))\<close>: stops at the first true value, and at the first exception.\<close>

fun any_map :: "('a \<Rightarrow> error + bool) \<Rightarrow> 'a list \<Rightarrow> error + bool" where
  "any_map f [] = Inr False"
| "any_map f (x # xs) =
     (case f x of
        Inl e \<Rightarrow> Inl e
      | Inr b \<Rightarrow> if b then Inr True else any_map f xs)"

section \<open>The library object\<close>

datatype notification = Available | Ready | Failed | Broken | Request | IngressChanged

text \<open>
  The state of an object of the base class: the charm's own application and unit, the
  leadership flag, the relations of the endpoint and the notifications emitted so far
  (with the relation each carries). The provider adds no field; the requirer adds the
  model's name, the bind address of its network binding, the pair given to the
  constructor and the flag set on teardown. Logging is not modelled.
\<close>

record charm =
  this_app :: application
  this_unit :: juju_unit
  is_leader :: bool
  relations :: "relation list"
  emitted :: "(notification \<times> relation option) list"

record requirer = charm +
  model_name :: string
  bind_address :: string
  auto_data :: "(string option \<times> int) option"
  is_relation_broken :: bool

subsection \<open>Base class\<close>

definition is_available :: "relation \<Rightarrow> error + bool" where
  "is_available relation =
     (case app relation of
        None \<Rightarrow> Inl AttributeError
      | Some a \<Rightarrow> if app_name a = [] then Inr False else Inr True)"

definition is_available_any :: "'a charm_scheme \<Rightarrow> error + bool" where
  "is_available_any self = any_map is_available (relations self)"

definition Base_is_ready :: "relation \<Rightarrow> bool" where
  "Base_is_ready relation =
     (case app relation of
        None \<Rightarrow> False
      | Some a \<Rightarrow> if app_name a = [] then False else True)"

text \<open>
  Modelled from the spec: the framework that stores the databags is not part of the
  repository. It is the one that enforces who may touch a databag: the databag of the
  charm's own application is for the leader alone, and for a unit that is not the
  leader the access \<^verbatim>\<open>relation.data[self.app]\<close> is refused with an exception of the
  framework, whether it is made to read or to write.
\<close>

definition app_databag :: "'a charm_scheme \<Rightarrow> relation \<Rightarrow> error + databag" where
  "app_databag self relation =
     (case databag_of relation (EApp (this_app self)) of
        Inl e \<Rightarrow> Inl e
      | Inr bag \<Rightarrow> if is_leader self then Inr bag else Inl RelationDataAccessError)"

subsection \<open>Provider\<close>

fun fetch_remote_units ::
  "yaml_lib \<Rightarrow> relation \<Rightarrow> bool \<Rightarrow> juju_unit list \<Rightarrow> error + (juju_unit \<times> yaml) list" where
  "fetch_remote_units Y relation validate [] = Inr []"
| "fetch_remote_units Y relation validate (remote_unit # rest) =
     (case databag_of relation (EUnit remote_unit) of
        Inl e \<Rightarrow> Inl e
      | Inr bag \<Rightarrow>
          (case (if truthy_raw (bag ''data'')
                 then (case deserialize_data Y (the (bag ''data'')) of
                         Inl e \<Rightarrow> Inl e
                       | Inr remote_deserialized \<Rightarrow>
                           if validate
                           then (case validate_data remote_deserialized
                                        INGRESS_REQUIRES_UNIT_SCHEMA of
                                   Inl e \<Rightarrow> Inl e
                                 | Inr _ \<Rightarrow> Inr remote_deserialized)
                           else Inr remote_deserialized)
                 else Inr (YMap fmempty)) of
             Inl e \<Rightarrow> Inl e
           | Inr remote_deserialized \<Rightarrow>
               (case fetch_remote_units Y relation validate rest of
                  Inl e \<Rightarrow> Inl e
                | Inr requirer_unit_data \<Rightarrow>
                    Inr ((remote_unit, remote_deserialized) # requirer_unit_data))))"

definition fetch_provider_app :: "yaml_lib \<Rightarrow> charm \<Rightarrow> relation \<Rightarrow> bool \<Rightarrow> error + yaml" where
  "fetch_provider_app Y self relation validate =
     (if is_leader self
      then (case app_databag self relation of
              Inl e \<Rightarrow> Inl e
            | Inr bag \<Rightarrow>
                (case (if truthy_raw (bag ''data'')
                       then (case deserialize_data Y (the (bag ''data'')) of
                               Inl e \<Rightarrow> Inl e
                             | Inr deserialized \<Rightarrow>
                                 if validate
                                 then (case validate_data deserialized
                                              INGRESS_PROVIDES_APP_SCHEMA of
                                         Inl e \<Rightarrow> Inl e
                                       | Inr _ \<Rightarrow> Inr deserialized)
                                 else Inr deserialized)
                       else Inr (YMap fmempty)) of
                   Inl e \<Rightarrow> Inl e
                 | Inr deserialized \<Rightarrow> dict_get deserialized ''ingress'' (YMap fmempty)))
      else Inr (YMap fmempty))"

definition fetch_relation_data ::
  "yaml_lib \<Rightarrow> charm \<Rightarrow> relation \<Rightarrow> bool \<Rightarrow> error + (yaml \<times> (juju_unit \<times> yaml) list)" where
  "fetch_relation_data Y self relation validate =
     (if (case app relation of None \<Rightarrow> True | Some a \<Rightarrow> app_name a = [])
      then Inr (YMap fmempty, [])
      else
        (case fetch_provider_app Y self relation validate of
           Inl e \<Rightarrow> Inl e
         | Inr provider_app_data \<Rightarrow>
             (case fetch_remote_units Y relation validate
                     (filter (\<lambda>u. u_app u \<noteq> this_app self) (units relation)) of
                Inl e \<Rightarrow> Inl e
              | Inr requirer_unit_data \<Rightarrow> Inr (provider_app_data, requirer_unit_data))))"

definition Provider_is_ready :: "yaml_lib \<Rightarrow> charm \<Rightarrow> relation \<Rightarrow> error + bool" where
  "Provider_is_ready Y self relation =
     (if \<not> Base_is_ready relation then Inr False
      else
        (case fetch_relation_data Y self relation False of
           Inl e \<Rightarrow> Inr False
         | Inr (provider_app_data, requirer_unit_data) \<Rightarrow>
             Inr (list_ex (\<lambda>(u, d). truthy d) requirer_unit_data)))"

definition Provider_is_ready_any :: "yaml_lib \<Rightarrow> charm \<Rightarrow> error + bool" where
  "Provider_is_ready_any Y self = any_map (Provider_is_ready Y self) (relations self)"

text \<open>
  The loop of \<^verbatim>\<open>is_failed\<close> over the units' records; \<open>expected_model\<close> starts as
  \<open>YNull\<close> (Python's \<^verbatim>\<open>None\<close>).
\<close>

fun check_models :: "relation \<Rightarrow> yaml \<Rightarrow> (juju_unit \<times> yaml) list \<Rightarrow> error + bool" where
  "check_models relation expected_model [] = Inr False"
| "check_models relation expected_model ((remote_unit, remote_unit_data) # rest) =
     (case py_contains ''model'' remote_unit_data of
        Inl e \<Rightarrow> Inl e
      | Inr has_model \<Rightarrow>
          if has_model
          then (case py_getitem remote_unit_data ''model'' of
                  Inl e \<Rightarrow> Inl e
                | Inr remote_model \<Rightarrow>
                    if \<not> truthy expected_model
                    then check_models relation remote_model rest
                    else if expected_model \<noteq> remote_model
                    then Inl (RelationDataMismatchError relation remote_unit)
                    else check_models relation expected_model rest)
          else check_models relation expected_model rest)"

definition Provider_is_failed :: "yaml_lib \<Rightarrow> charm \<Rightarrow> relation \<Rightarrow> error + bool" where
  "Provider_is_failed Y self relation =
     (case app relation of
        None \<Rightarrow> Inl AttributeError
      | Some a \<Rightarrow>
          if app_name a = [] then Inr False
          else if units relation = [] then Inr False
          else
            (case fetch_relation_data Y self relation True of
               Inl (DataValidationError d sch) \<Rightarrow> Inr True
             | Inl e \<Rightarrow> Inl e
             | Inr (provider_app_data, requirer_unit_data) \<Rightarrow>
                 check_models relation YNull requirer_unit_data))"

definition Provider_is_failed_any :: "yaml_lib \<Rightarrow> charm \<Rightarrow> error + bool" where
  "Provider_is_failed_any Y self = any_map (Provider_is_failed Y self) (relations self)"

text \<open>
  The writes of the provider return the exception raised, if any, together with the
  relation as the call leaves it. A write stores the text in a databag that
  \<open>app_databag\<close> has handed out, so it is never made by a unit that is refused.
\<close>

definition set_app_data :: "relation \<Rightarrow> application \<Rightarrow> databag \<Rightarrow> string \<Rightarrow> relation" where
  "set_app_data relation a bag text =
     relation\<lparr>data := (data relation)(EApp a \<mapsto> bag(''data'' \<mapsto> text))\<rparr>"

text \<open>\<^verbatim>\<open>data['ingress'][unit_name] = {'url': url}\<close>\<close>

definition set_ingress_url :: "yaml \<Rightarrow> string \<Rightarrow> string \<Rightarrow> error + yaml" where
  "set_ingress_url d unit_name url =
     (case py_getitem d ''ingress'' of
        Inl e \<Rightarrow> Inl e
      | Inr (YMap ingress) \<Rightarrow>
          (case d of
             YMap m \<Rightarrow>
               Inr (YMap (fmupd ''ingress''
                      (YMap (fmupd unit_name (YMap (fmupd ''url'' (YStr url) fmempty)) ingress))
                      m))
           | _ \<Rightarrow> Inl TypeError)
      | Inr _ \<Rightarrow> Inl TypeError)"

definition publish_url ::
  "yaml_lib \<Rightarrow> charm \<Rightarrow> relation \<Rightarrow> string \<Rightarrow> string \<Rightarrow> error option \<times> relation" where
  "publish_url Y self relation unit_name url =
     (case app_databag self relation of
        Inl e \<Rightarrow> (Some e, relation)
      | Inr bag \<Rightarrow>
          (case (if truthy_raw (bag ''data'')
                 then deserialize_data Y (the (bag ''data''))
                 else Inr (YMap (fmupd ''ingress'' (YMap fmempty) fmempty))) of
             Inl e \<Rightarrow> (Some e, relation)
           | Inr d \<Rightarrow>
               (case validate_data d INGRESS_PROVIDES_APP_SCHEMA of
                  Inl (DataValidationError bad sch) \<Rightarrow> (None, relation)
                | Inl e \<Rightarrow> (Some e, relation)
                | Inr _ \<Rightarrow>
                    (case set_ingress_url d unit_name url of
                       Inl e \<Rightarrow> (Some e, relation)
                     | Inr d' \<Rightarrow>
                         (None, set_app_data relation (this_app self) bag
                                  (serialize_data Y d'))))))"

text \<open>Storing the empty text removes the key from the databag.\<close>

definition wipe_ingress_data :: "charm \<Rightarrow> relation \<Rightarrow> error option \<times> relation" where
  "wipe_ingress_data self relation =
     (case app_databag self relation of
        Inl e \<Rightarrow> (Some e, relation)
      | Inr bag \<Rightarrow>
          (None, relation\<lparr>data := (data relation)(EApp (this_app self) \<mapsto>
                                     bag(''data'' := None))\<rparr>))"

definition publish_ingress_data ::
  "yaml_lib \<Rightarrow> charm \<Rightarrow> relation \<Rightarrow> yaml \<Rightarrow> error option \<times> relation" where
  "publish_ingress_data Y self relation d =
     (if \<not> is_leader self
      then (Some (RelationPermissionError relation (this_unit self)
                    ''This unit is not the leader''), relation)
      else
        (let wrapped_data = YMap (fmupd ''ingress'' d fmempty) in
           (case validate_data wrapped_data INGRESS_PROVIDES_APP_SCHEMA of
              Inl e \<Rightarrow> (Some e, relation)
            | Inr _ \<Rightarrow>
                (case app_databag self relation of
                   Inl e \<Rightarrow> (Some e, relation)
                 | Inr bag \<Rightarrow>
                     (None, set_app_data relation (this_app self) bag
                              (serialize_data Y wrapped_data))))))"

subsection \<open>Requirer\<close>

text \<open>The constructor: \<^verbatim>\<open>_auto_data\<close> is set only for a truthy port.\<close>

definition Requirer_init ::
  "application \<Rightarrow> juju_unit \<Rightarrow> bool \<Rightarrow> relation list \<Rightarrow> string \<Rightarrow> string \<Rightarrow>
   string option \<Rightarrow> int option \<Rightarrow> requirer" where
  "Requirer_init a u leader rels mname addr host port =
     \<lparr>this_app = a, this_unit = u, is_leader = leader, relations = rels, emitted = [],
      model_name = mname, bind_address = addr,
      auto_data = (case port of
                     None \<Rightarrow> None
                   | Some p \<Rightarrow> if p \<noteq> 0 then Some (host, p) else None),
      is_relation_broken = False\<rparr>"

definition Requirer_relation :: "'a charm_scheme \<Rightarrow> relation option" where
  "Requirer_relation self = (case relations self of [] \<Rightarrow> None | r # rest \<Rightarrow> Some r)"

text \<open>
  The comprehension of \<^verbatim>\<open>urls\<close> over the entries of the aggregate. It raises when an
  entry has no \<^verbatim>\<open>url\<close>, which validation excludes.
\<close>

fun urls_of :: "yaml \<Rightarrow> error + (string, yaml) fmap" where
  "urls_of (YMap ingress) =
     (if fmpred (\<lambda>unit_name unit_data.
                  case py_getitem unit_data ''url'' of Inl e \<Rightarrow> False | Inr u \<Rightarrow> True) ingress
      then Inr (fmmap (\<lambda>unit_data.
                         case py_getitem unit_data ''url'' of Inl e \<Rightarrow> YNull | Inr u \<Rightarrow> u)
                  ingress)
      else Inl KeyError)"
| "urls_of d = Inl AttributeError"

definition urls :: "yaml_lib \<Rightarrow> requirer \<Rightarrow> error + (string, yaml) fmap" where
  "urls Y self =
     (case Requirer_relation self of
        None \<Rightarrow> Inr fmempty
      | Some relation \<Rightarrow>
          if is_relation_broken self then Inr fmempty
          else
            (case app relation of
               None \<Rightarrow> Inl AttributeError
             | Some a \<Rightarrow>
                 (let raw = (if app_name a \<noteq> []
                             then (case data relation (EApp a) of
                                     None \<Rightarrow> None
                                   | Some bag \<Rightarrow> bag ''data'')
                             else None)
                  in if \<not> truthy_raw raw then Inr fmempty
                     else
                       (case deserialize_data Y (the raw) of
                          Inl e \<Rightarrow> Inl e
                        | Inr d \<Rightarrow>
                            (case validate_data d INGRESS_PROVIDES_APP_SCHEMA of
                               Inl e \<Rightarrow> Inl e
                             | Inr _ \<Rightarrow>
                                 (case dict_get d ''ingress'' (YMap fmempty) of
                                    Inl e \<Rightarrow> Inl e
                                  | Inr ingress \<Rightarrow> urls_of ingress))))))"

definition url :: "yaml_lib \<Rightarrow> requirer \<Rightarrow> error + yaml option" where
  "url Y self =
     (case urls Y self of
        Inl e \<Rightarrow> Inl e
      | Inr us \<Rightarrow>
          if us = fmempty then Inr None
          else Inr (fmlookup us (u_name (this_unit self))))"

definition Requirer_is_ready :: "yaml_lib \<Rightarrow> requirer \<Rightarrow> relation \<Rightarrow> error + bool" where
  "Requirer_is_ready Y self relation =
     (if \<not> Base_is_ready relation then Inr False
      else
        (case url Y self of
           Inl e \<Rightarrow> Inl e
         | Inr None \<Rightarrow> Inr False
         | Inr (Some u) \<Rightarrow> Inr (truthy u)))"

text \<open>
  Without a relation the base class asks every relation, through the requirer's own
  \<^verbatim>\<open>is_ready\<close>; only the answer \<^verbatim>\<open>False\<close> ends the check.
\<close>

definition Requirer_is_ready_any :: "yaml_lib \<Rightarrow> requirer \<Rightarrow> error + bool" where
  "Requirer_is_ready_any Y self =
     (case any_map (Requirer_is_ready Y self) (relations self) of
        Inl e \<Rightarrow> Inl e
      | Inr b \<Rightarrow>
          if \<not> b then Inr False
          else
            (case url Y self of
               Inl e \<Rightarrow> Inl e
             | Inr None \<Rightarrow> Inr False
             | Inr (Some u) \<Rightarrow> Inr (truthy u)))"

definition Requirer_is_failed :: "yaml_lib \<Rightarrow> requirer \<Rightarrow> relation \<Rightarrow> error + bool" where
  "Requirer_is_failed Y self relation =
     (if relations self = [] then Inr False
      else
        (case app relation of
           None \<Rightarrow> Inl AttributeError
         | Some a \<Rightarrow>
             if app_name a = [] then Inr False
             else if units relation = [] then Inr False
             else
               (case (case Requirer_relation self of
                        None \<Rightarrow> Inl AttributeError
                      | Some r \<Rightarrow> databag_of r (EUnit (this_unit self))) of
                  Inl e \<Rightarrow> Inr True
                | Inr bag \<Rightarrow>
                    if truthy_raw (bag ''data'')
                    then (case deserialize_data Y (the (bag ''data'')) of
                            Inl e \<Rightarrow> Inl e
                          | Inr d \<Rightarrow>
                              (case validate_data d INGRESS_REQUIRES_UNIT_SCHEMA of
                                 Inl (DataValidationError bad sch) \<Rightarrow> Inr True
                               | Inl e \<Rightarrow> Inl e
                               | Inr _ \<Rightarrow> Inr False))
                    else Inr False)))"

definition Requirer_is_failed_any :: "yaml_lib \<Rightarrow> requirer \<Rightarrow> error + bool" where
  "Requirer_is_failed_any Y self =
     (if relations self = [] then Inr False
      else any_map (Requirer_is_failed Y self) (relations self))"

text \<open>
  \<^verbatim>\<open>_publish_ingress_data\<close> writes this unit's record to the first relation of the
  endpoint. The bind address of the network binding is a field of the state.
\<close>

definition Requirer_publish_ingress_data ::
  "yaml_lib \<Rightarrow> requirer \<Rightarrow> string option \<Rightarrow> int \<Rightarrow> error option \<times> requirer" where
  "Requirer_publish_ingress_data Y self host port =
     (let host' = (if truthy_raw host then the host else bind_address self);
          d = YMap (fmupd ''model'' (YStr (model_name self))
                   (fmupd ''name'' (YStr (u_name (this_unit self)))
                   (fmupd ''host'' (YStr host')
                   (fmupd ''port'' (YInt port) fmempty))))
      in case relations self of
           [] \<Rightarrow> (Some AttributeError, self)
         | r # rest \<Rightarrow>
             (case databag_of r (EUnit (this_unit self)) of
                Inl e \<Rightarrow> (Some e, self)
              | Inr bag \<Rightarrow>
                  (None,
                   self\<lparr>relations :=
                     r\<lparr>data := (data r)(EUnit (this_unit self) \<mapsto>
                                  bag(''data'' \<mapsto> serialize_data Y d))\<rparr> # rest\<rparr>)))"

definition request ::
  "yaml_lib \<Rightarrow> requirer \<Rightarrow> string option \<Rightarrow> int \<Rightarrow> error option \<times> requirer" where
  "request Y self host port = Requirer_publish_ingress_data Y self host port"

definition publish_auto_data ::
  "yaml_lib \<Rightarrow> requirer \<Rightarrow> relation \<Rightarrow> error option \<times> requirer" where
  "publish_auto_data Y self relation =
     (case auto_data self of
        None \<Rightarrow> (None, self)
      | Some (host, port) \<Rightarrow>
          (case is_available relation of
             Inl e \<Rightarrow> (Some e, self)
           | Inr b \<Rightarrow>
               if b then Requirer_publish_ingress_data Y self host port
               else (None, self)))"

section \<open>Notifications\<close>

definition emit ::
  "notification \<Rightarrow> relation option \<Rightarrow> 'a charm_scheme \<Rightarrow> 'a charm_scheme" where
  "emit n payload self = self\<lparr>emitted := emitted self @ [(n, payload)]\<rparr>"

text \<open>
  The provider observes its own \<^verbatim>\<open>ready\<close> notification and answers it with
  \<^verbatim>\<open>request\<close>.
\<close>

definition Provider_emit :: "notification \<Rightarrow> relation option \<Rightarrow> charm \<Rightarrow> charm" where
  "Provider_emit n payload self =
     (if n = Ready then emit Request payload (emit Ready payload self)
      else emit n payload self)"

text \<open>
  \<^verbatim>\<open>_handle_relation\<close> of the base class, over the predicates and the emitter of the
  role that inherits it.
\<close>

definition Base_handle_relation ::
  "(relation \<Rightarrow> error + bool) \<Rightarrow> (relation \<Rightarrow> error + bool) \<Rightarrow> (relation \<Rightarrow> error + bool) \<Rightarrow>
   (notification \<Rightarrow> relation option \<Rightarrow> 'a charm_scheme \<Rightarrow> 'a charm_scheme) \<Rightarrow>
   'a charm_scheme \<Rightarrow> relation \<Rightarrow> error option \<times> 'a charm_scheme" where
  "Base_handle_relation ready available failed emitter self relation =
     (case ready relation of
        Inl e \<Rightarrow> (Some e, self)
      | Inr is_ready \<Rightarrow>
          if is_ready then (None, emitter Ready (Some relation) self)
          else
            (case available relation of
               Inl e \<Rightarrow> (Some e, self)
             | Inr is_avail \<Rightarrow>
                 if is_avail then (None, emitter Available (Some relation) self)
                 else
                   (case failed relation of
                      Inl e \<Rightarrow> (Some e, self)
                    | Inr is_fail \<Rightarrow>
                        if is_fail then (None, emitter Failed (Some relation) self)
                        else (None, self))))"

definition Provider_handle_relation ::
  "yaml_lib \<Rightarrow> charm \<Rightarrow> relation \<Rightarrow> error option \<times> charm" where
  "Provider_handle_relation Y self relation =
     Base_handle_relation (Provider_is_ready Y self) is_available (Provider_is_failed Y self)
       Provider_emit self relation"

definition Requirer_handle_relation ::
  "yaml_lib \<Rightarrow> requirer \<Rightarrow> relation \<Rightarrow> error option \<times> requirer" where
  "Requirer_handle_relation Y self relation =
     (case Base_handle_relation (Requirer_is_ready Y self) is_available
             (Requirer_is_failed Y self) emit self relation of
        (Some e, self') \<Rightarrow> (Some e, self')
      | (None, self') \<Rightarrow> publish_auto_data Y self' relation)"

definition handle_relation_broken :: "'a charm_scheme \<Rightarrow> relation \<Rightarrow> 'a charm_scheme" where
  "handle_relation_broken self relation = emit Broken (Some relation) self"

fun Requirer_handle_upgrade_or_leader ::
  "yaml_lib \<Rightarrow> requirer \<Rightarrow> relation list \<Rightarrow> error option \<times> requirer" where
  "Requirer_handle_upgrade_or_leader Y self [] = (None, self)"
| "Requirer_handle_upgrade_or_leader Y self (relation # rest) =
     (case publish_auto_data Y self relation of
        (Some e, self') \<Rightarrow> (Some e, self')
      | (None, self') \<Rightarrow> Requirer_handle_upgrade_or_leader Y self' rest)"

datatype hook_event =
    RelationCreatedEvent relation
  | RelationJoinedEvent relation
  | RelationChangedEvent relation
  | RelationBrokenEvent relation
  | LeaderElectedEvent
  | UpgradeCharmEvent

fun is_RelationBrokenEvent :: "hook_event \<Rightarrow> bool" where
  "is_RelationBrokenEvent (RelationBrokenEvent r) = True"
| "is_RelationBrokenEvent ev = False"

definition emit_ingress_change_event :: "requirer \<Rightarrow> hook_event \<Rightarrow> requirer" where
  "emit_ingress_change_event self event =
     (let self' = (if is_RelationBrokenEvent event
                   then self\<lparr>is_relation_broken := True\<rparr> else self)
      in emit IngressChanged (Requirer_relation self') self')"

text \<open>
  The observers that the requirer registers, run in the order of their registration;
  an exception ends the pass.
\<close>

fun Requirer_dispatch ::
  "yaml_lib \<Rightarrow> requirer \<Rightarrow> hook_event \<Rightarrow> error option \<times> requirer" where
  "Requirer_dispatch Y self (RelationCreatedEvent r) = Requirer_handle_relation Y self r"
| "Requirer_dispatch Y self (RelationJoinedEvent r) = Requirer_handle_relation Y self r"
| "Requirer_dispatch Y self (RelationChangedEvent r) =
     (case Requirer_handle_relation Y self r of
        (Some e, self') \<Rightarrow> (Some e, self')
      | (None, self') \<Rightarrow> (None, emit_ingress_change_event self' (RelationChangedEvent r)))"
| "Requirer_dispatch Y self (RelationBrokenEvent r) =
     (None, emit_ingress_change_event (handle_relation_broken self r) (RelationBrokenEvent r))"
| "Requirer_dispatch Y self LeaderElectedEvent =
     Requirer_handle_upgrade_or_leader Y self (relations self)"
| "Requirer_dispatch Y self UpgradeCharmEvent =
     Requirer_handle_upgrade_or_leader Y self (relations self)"

text \<open>The status notifications among the notifications emitted, in order.\<close>

definition status_notifications :: "(notification \<times> relation option) list \<Rightarrow> notification list" where
  "status_notifications evs =
     filter (\<lambda>n. n = Ready \<or> n = Available \<or> n = Failed) (map fst evs)"

text \<open>
  An entity's databag can be read when it exists and its text, if it has one, is text
  that the YAML loader accepts.
\<close>

definition readable :: "yaml_lib \<Rightarrow> relation \<Rightarrow> entity \<Rightarrow> bool" where
  "readable Y relation e =
     (case data relation e of
        None \<Rightarrow> False
      | Some bag \<Rightarrow>
          (case bag ''data'' of None \<Rightarrow> True | Some t \<Rightarrow> safe_load Y t \<noteq> None))"

section \<open>Example data\<close>

text \<open>
  A provider application \<open>traefik\<close> related to a requirer application \<open>web\<close> with two
  units, and a table of the texts and documents that the examples exchange.
\<close>

definition traefik :: application where
  "traefik = Application ''traefik''"

definition traefik0 :: juju_unit where
  "traefik0 = Unit ''traefik/0'' traefik"

definition web :: application where
  "web = Application ''web''"

definition web0 :: juju_unit where
  "web0 = Unit ''web/0'' web"

definition web1 :: juju_unit where
  "web1 = Unit ''web/1'' web"

definition web2 :: juju_unit where
  "web2 = Unit ''web/2'' web"

definition rec0_text :: string where
  "rec0_text = ''host: 10.0.0.1\<newline>model: m1\<newline>name: web/0\<newline>port: 80\<newline>''"

definition rec0 :: yaml where
  "rec0 = YMap (fmupd ''host'' (YStr ''10.0.0.1'') (fmupd ''model'' (YStr ''m1'')
            (fmupd ''name'' (YStr ''web/0'') (fmupd ''port'' (YInt 80) fmempty))))"

definition rec1_text :: string where
  "rec1_text = ''host: 10.0.0.2\<newline>model: m2\<newline>name: web/1\<newline>port: 80\<newline>''"

definition rec1 :: yaml where
  "rec1 = YMap (fmupd ''host'' (YStr ''10.0.0.2'') (fmupd ''model'' (YStr ''m2'')
            (fmupd ''name'' (YStr ''web/1'') (fmupd ''port'' (YInt 80) fmempty))))"

definition rec2_text :: string where
  "rec2_text = ''host: 10.0.0.3\<newline>model: m1\<newline>name: web/2\<newline>port: 80\<newline>''"

definition rec2 :: yaml where
  "rec2 = YMap (fmupd ''host'' (YStr ''10.0.0.3'') (fmupd ''model'' (YStr ''m1'')
            (fmupd ''name'' (YStr ''web/2'') (fmupd ''port'' (YInt 80) fmempty))))"

definition agg_text :: string where
  "agg_text = ''ingress:\<newline>  web/0:\<newline>    url: http://example/web-0\<newline>''"

definition agg_ingress :: yaml where
  "agg_ingress =
     YMap (fmupd ''web/0'' (YMap (fmupd ''url'' (YStr ''http://example/web-0'') fmempty))
        fmempty)"

definition agg :: yaml where
  "agg = YMap (fmupd ''ingress'' agg_ingress fmempty)"

definition bad_text :: string where
  "bad_text = ''ingress: oops\<newline>''"

definition bad :: yaml where
  "bad = YMap (fmupd ''ingress'' (YStr ''oops'') fmempty)"

definition demo_yaml :: yaml_lib where
  "demo_yaml =
     \<lparr>safe_load = (\<lambda>t. if t = rec0_text then Some rec0
                       else if t = rec1_text then Some rec1
                       else if t = rec2_text then Some rec2
                       else if t = agg_text then Some agg
                       else if t = bad_text then Some bad
                       else None),
      safe_dump = (\<lambda>d. if d = agg then agg_text else ''{}\<newline>'')\<rparr>"

text \<open>The provider's side: relations between \<open>traefik\<close> and the two units of \<open>web\<close>.\<close>

definition breaking_relation :: relation where
  "breaking_relation =
     \<lparr>rel_name = ''ingress-per-unit'', rel_id = 0, app = None, units = [],
      data = [EApp traefik \<mapsto> Map.empty]\<rparr>"

definition fresh_relation :: relation where
  "fresh_relation =
     \<lparr>rel_name = ''ingress-per-unit'', rel_id = 0, app = Some web, units = [web0, web1],
      data = [EApp traefik \<mapsto> Map.empty, EUnit web0 \<mapsto> Map.empty,
              EUnit web1 \<mapsto> Map.empty]\<rparr>"

definition published_relation :: relation where
  "published_relation = set_app_data fresh_relation traefik Map.empty agg_text"

definition corrupt_relation :: relation where
  "corrupt_relation = set_app_data fresh_relation traefik Map.empty bad_text"

definition mismatch_relation :: relation where
  "mismatch_relation =
     \<lparr>rel_name = ''ingress-per-unit'', rel_id = 0, app = Some web, units = [web0, web1],
      data = [EApp traefik \<mapsto> Map.empty, EUnit web0 \<mapsto> [''data'' \<mapsto> rec0_text],
              EUnit web1 \<mapsto> [''data'' \<mapsto> rec1_text]]\<rparr>"

text \<open>Three units: two agree on the model, the last one visited differs.\<close>

definition three_relation :: relation where
  "three_relation =
     \<lparr>rel_name = ''ingress-per-unit'', rel_id = 0, app = Some web,
      units = [web0, web2, web1],
      data = [EApp traefik \<mapsto> Map.empty, EUnit web0 \<mapsto> [''data'' \<mapsto> rec0_text],
              EUnit web2 \<mapsto> [''data'' \<mapsto> rec2_text],
              EUnit web1 \<mapsto> [''data'' \<mapsto> rec1_text]]\<rparr>"

definition demo_leader :: charm where
  "demo_leader =
     \<lparr>this_app = traefik, this_unit = traefik0, is_leader = True,
      relations = [fresh_relation], emitted = []\<rparr>"

definition demo_follower :: charm where
  "demo_follower = demo_leader\<lparr>is_leader := False\<rparr>"

text \<open>The requirer's side: unit \<open>web/0\<close>, with an aggregate that \<open>traefik\<close> has published.\<close>

definition stale_relation :: relation where
  "stale_relation =
     \<lparr>rel_name = ''ingress-per-unit'', rel_id = 0, app = Some traefik, units = [traefik0],
      data = [EApp traefik \<mapsto> [''data'' \<mapsto> agg_text], EUnit web0 \<mapsto> Map.empty]\<rparr>"

definition demo_requirer :: requirer where
  "demo_requirer =
     Requirer_init web web0 True [stale_relation] ''m1'' ''10.0.0.1'' None (Some 80)"

section \<open>Schema validation\<close>

lemma re_search_Nil: "re_search [] k"
  by (induction k) simp_all

lemma is_valid_provides:
  "is_valid INGRESS_PROVIDES_APP_SCHEMA d \<longleftrightarrow>
     (\<exists>m ing. d = YMap m \<and> fmlookup m ''ingress'' = Some (YMap ing) \<and>
        fmpred (\<lambda>k v. is_valid url_entry_schema v) ing)"
proof (cases d)
  case (YMap m)
  show ?thesis
  proof (cases "fmlookup m ''ingress''")
    case None
    then show ?thesis using YMap
      by (auto simp: INGRESS_PROVIDES_APP_SCHEMA_def fmlookup_dom'_iff)
  next
    case (Some v)
    then show ?thesis using YMap
      by (cases v) (auto simp: INGRESS_PROVIDES_APP_SCHEMA_def fmlookup_dom'_iff re_search_Nil)
  qed
qed (simp_all add: INGRESS_PROVIDES_APP_SCHEMA_def)

lemma is_valid_url_entry:
  "is_valid url_entry_schema (YMap (fmupd ''url'' (YStr u) fmempty))"
  by (simp add: url_entry_schema_def str_schema_def)

lemma set_ingress_url_valid:
  assumes "is_valid INGRESS_PROVIDES_APP_SCHEMA d"
  shows "\<exists>d'. set_ingress_url d n u = Inr d' \<and> is_valid INGRESS_PROVIDES_APP_SCHEMA d' \<and>
           set_ingress_url d' n u = Inr d'"
proof -
  from assms obtain m ing where d: "d = YMap m" and
    ing: "fmlookup m ''ingress'' = Some (YMap ing)" and
    p: "fmpred (\<lambda>k v. is_valid url_entry_schema v) ing"
    unfolding is_valid_provides by blast
  let ?e = "YMap (fmupd ''url'' (YStr u) fmempty)"
  let ?d' = "YMap (fmupd ''ingress'' (YMap (fmupd n ?e ing)) m)"
  have 1: "set_ingress_url d n u = Inr ?d'"
    by (simp add: set_ingress_url_def d ing)
  have 2: "is_valid INGRESS_PROVIDES_APP_SCHEMA ?d'"
    unfolding is_valid_provides using p is_valid_url_entry[of u] by (auto intro!: fmpred_upd)
  have 3: "set_ingress_url ?d' n u = Inr ?d'"
    by (simp add: set_ingress_url_def)
  show ?thesis using 1 2 3 by blast
qed

lemma is_valid_empty_aggregate:
  "is_valid INGRESS_PROVIDES_APP_SCHEMA (YMap (fmupd ''ingress'' (YMap fmempty) fmempty))"
  by (simp add: is_valid_provides)

lemma is_valid_agg: "is_valid INGRESS_PROVIDES_APP_SCHEMA agg"
  by (simp add: is_valid_provides agg_def agg_ingress_def is_valid_url_entry fmpred_upd)

lemma not_is_valid_bad: "\<not> is_valid INGRESS_PROVIDES_APP_SCHEMA bad"
  by (simp add: is_valid_provides bad_def)

section \<open>Evaluation of the examples\<close>

lemma demo_load_simps:
  "safe_load demo_yaml agg_text = Some agg"
  "safe_load demo_yaml bad_text = Some bad"
  "safe_load demo_yaml rec0_text = Some rec0"
  "safe_load demo_yaml rec1_text = Some rec1"
  "safe_load demo_yaml rec2_text = Some rec2"
  by (simp_all add: demo_yaml_def agg_text_def bad_text_def rec0_text_def rec1_text_def
      rec2_text_def)

lemma demo_dump_agg: "safe_dump demo_yaml agg = agg_text"
  by (simp add: demo_yaml_def)

lemma demo_dump_eq_agg_text: "safe_dump demo_yaml d = agg_text \<longleftrightarrow> d = agg"
  by (simp add: demo_yaml_def agg_text_def)

lemma text_nonempty:
  "agg_text \<noteq> []" "bad_text \<noteq> []" "rec0_text \<noteq> []" "rec1_text \<noteq> []" "rec2_text \<noteq> []"
  by (simp_all add: agg_text_def bad_text_def rec0_text_def rec1_text_def rec2_text_def)

lemma publish_url_fresh:
  "publish_url demo_yaml demo_leader fresh_relation ''web/0'' ''http://example/web-0''
     = (None, published_relation)"
  by (simp add: publish_url_def app_databag_def databag_of_def demo_leader_def fresh_relation_def truthy_raw_def
      validate_data_def is_valid_empty_aggregate set_ingress_url_def serialize_data_def
      published_relation_def agg_def[symmetric] agg_ingress_def[symmetric] demo_dump_agg)

section \<open>Availability while the relation is breaking\<close>

lemma not_ready_unresolved:
  assumes "app r = None \<or> app r = Some (Application [])"
  shows "\<not> Base_is_ready r" and "Provider_is_ready Y p r = Inr False"
    and "Requirer_is_ready Y q r = Inr False"
  using assms
  by (auto simp: Base_is_ready_def Provider_is_ready_def Requirer_is_ready_def)

lemma not_available_empty_name:
  "app r = Some (Application []) \<Longrightarrow> is_available r = Inr False"
  by (simp add: is_available_def)

text \<open>
  C6. A relation whose remote application is unresolved should be neither available
  nor ready. \<^verbatim>\<open>is_ready\<close> answers \<^verbatim>\<open>False\<close>, but \<^verbatim>\<open>is_available\<close> reads the name of
  the absent application and raises.
\<close>

theorem is_available_breaking:
  "is_available breaking_relation = Inl AttributeError \<and>
   Base_is_ready breaking_relation = False"
  by (simp add: is_available_def Base_is_ready_def breaking_relation_def)

section \<open>Teardown on the requirer\<close>

text \<open>
  C7. Once the requirer has handled a relation-broken event, \<^verbatim>\<open>urls\<close> is the empty
  mapping, whatever the provider's databag still holds.
\<close>

theorem urls_empty_after_broken:
  "fst (Requirer_dispatch Y self (RelationBrokenEvent r)) = None \<and>
   urls Y (snd (Requirer_dispatch Y self (RelationBrokenEvent r))) = Inr fmempty"
  by (simp add: urls_def emit_ingress_change_event_def handle_relation_broken_def emit_def
        Requirer_relation_def split: list.splits)

lemma urls_demo:
  "urls demo_yaml demo_requirer = Inr (fmupd ''web/0'' (YStr ''http://example/web-0'') fmempty)"
proof -
  have "fmmap (\<lambda>unit_data. case py_getitem unit_data ''url'' of Inl e \<Rightarrow> YNull | Inr u \<Rightarrow> u)
          (fmupd ''web/0'' (YMap (fmupd ''url'' (YStr ''http://example/web-0'') fmempty)) fmempty)
        = fmupd ''web/0'' (YStr ''http://example/web-0'') fmempty"
    by (rule fmap_ext) simp
  then show ?thesis
    by (simp add: urls_def demo_requirer_def Requirer_init_def Requirer_relation_def stale_relation_def
        traefik_def truthy_raw_def deserialize_data_def demo_load_simps text_nonempty
        validate_data_def is_valid_agg)
      (simp add: agg_def agg_ingress_def fmpred_iff)
qed

theorem urls_empty_after_broken_witness:
  "urls demo_yaml demo_requirer = Inr (fmupd ''web/0'' (YStr ''http://example/web-0'') fmempty) \<and>
   urls demo_yaml (snd (Requirer_dispatch demo_yaml demo_requirer (RelationBrokenEvent stale_relation)))
     = Inr fmempty"
  using urls_empty_after_broken [of demo_yaml demo_requirer stale_relation] urls_demo by simp

section \<open>Publishing a URL twice\<close>

text \<open>
  C8. A second \<^verbatim>\<open>publish_url\<close> with the same unit name and URL leaves the relation, and
  so the aggregate stored in the provider's databag, as the first call left it. The
  YAML library is assumed to give back the document it dumped: for every document whose
  dump is the text stored after the first call, that text is not empty and loads as the
  document.
\<close>

theorem publish_url_idempotent:
  assumes first: "publish_url Y self r n u = (res, r1)"
    and codec: "\<And>bag d. data r1 (EApp (this_app self)) = Some bag \<Longrightarrow>
                  bag ''data'' = Some (safe_dump Y d) \<Longrightarrow>
                  safe_dump Y d \<noteq> [] \<and> safe_load Y (safe_dump Y d) = Some d"
  shows "publish_url Y self r1 n u = (res, r1)"
proof (cases "app_databag self r")
  case (Inl e)
  then show ?thesis using first by (auto simp: publish_url_def)
next
  case (Inr bag)
  then have leader: "is_leader self" and bag: "data r (EApp (this_app self)) = Some bag"
    by (auto simp: app_databag_def databag_of_def split: option.splits if_splits)
  show ?thesis
  proof (cases "if truthy_raw (bag ''data'') then deserialize_data Y (the (bag ''data''))
                 else Inr (YMap (fmupd ''ingress'' (YMap fmempty) fmempty))")
    case (Inl e)
    then show ?thesis using first Inr by (auto simp: publish_url_def)
  next
    case d: (Inr d)
    show ?thesis
    proof (cases "is_valid INGRESS_PROVIDES_APP_SCHEMA d")
      case False
      then show ?thesis using first Inr d
        by (auto simp: publish_url_def validate_data_def)
    next
      case True
      from set_ingress_url_valid[OF True, of n u] obtain d' where
        s1: "set_ingress_url d n u = Inr d'" and v': "is_valid INGRESS_PROVIDES_APP_SCHEMA d'"
        and s2: "set_ingress_url d' n u = Inr d'" by blast
      have r1: "r1 = set_app_data r (this_app self) bag (safe_dump Y d')" and res: "res = None"
        using first Inr d True s1
        by (auto simp: publish_url_def validate_data_def serialize_data_def)
      let ?bag1 = "bag(''data'' \<mapsto> safe_dump Y d')"
      have b1: "data r1 (EApp (this_app self)) = Some ?bag1"
        by (simp add: r1 set_app_data_def)
      then have a1: "app_databag self r1 = Inr ?bag1"
        using leader by (simp add: app_databag_def databag_of_def)
      from codec[OF b1, of d'] have ne: "safe_dump Y d' \<noteq> []"
        and rt: "safe_load Y (safe_dump Y d') = Some d'" by simp_all
      have same: "set_app_data r1 (this_app self) ?bag1 (safe_dump Y d') = r1"
        by (simp add: r1 set_app_data_def)
      show ?thesis
        using a1 ne rt v' s2 same res
        by (simp add: publish_url_def validate_data_def serialize_data_def
            truthy_raw_def deserialize_data_def)
    qed
  qed
qed

theorem publish_url_idempotent_witness:
  "publish_url demo_yaml demo_leader fresh_relation ''web/0'' ''http://example/web-0''
     = (None, published_relation) \<and>
   publish_url demo_yaml demo_leader published_relation ''web/0'' ''http://example/web-0''
     = (None, published_relation)"
proof -
  have codec: "safe_dump demo_yaml d \<noteq> [] \<and> safe_load demo_yaml (safe_dump demo_yaml d) = Some d"
    if "data published_relation (EApp (this_app demo_leader)) = Some bag"
      and "bag ''data'' = Some (safe_dump demo_yaml d)" for bag d
  proof -
    from that have "safe_dump demo_yaml d = agg_text"
      by (auto simp: published_relation_def set_app_data_def demo_leader_def)
    then have "d = agg"
      by (simp add: demo_dump_eq_agg_text)
    then show ?thesis
      by (simp add: demo_dump_agg demo_load_simps text_nonempty)
  qed
  from publish_url_idempotent [OF publish_url_fresh codec] publish_url_fresh
  show ?thesis by simp
qed

section \<open>Publishing the whole aggregate\<close>

text \<open>
  C10. \<^verbatim>\<open>publish_ingress_data\<close> raises RelationPermissionError on a unit that is not the
  leader and DataValidationError on an aggregate that fails the provider schema, and in
  both cases, as with any other exception, the relation is as it was; the databag is
  written only on the leader, after validation has succeeded.
\<close>

theorem publish_ingress_data_atomic:
  "(\<not> is_leader self \<longrightarrow>
      publish_ingress_data Y self r d =
        (Some (RelationPermissionError r (this_unit self) ''This unit is not the leader''), r)) \<and>
   (is_leader self \<and>
    \<not> is_valid INGRESS_PROVIDES_APP_SCHEMA (YMap (fmupd ''ingress'' d fmempty)) \<longrightarrow>
      publish_ingress_data Y self r d =
        (Some (DataValidationError (YMap (fmupd ''ingress'' d fmempty))
                 INGRESS_PROVIDES_APP_SCHEMA), r)) \<and>
   (fst (publish_ingress_data Y self r d) \<noteq> None \<longrightarrow>
      snd (publish_ingress_data Y self r d) = r) \<and>
   (snd (publish_ingress_data Y self r d) \<noteq> r \<longrightarrow>
      is_leader self \<and>
      is_valid INGRESS_PROVIDES_APP_SCHEMA (YMap (fmupd ''ingress'' d fmempty))) \<and>
   (is_leader self \<and>
    is_valid INGRESS_PROVIDES_APP_SCHEMA (YMap (fmupd ''ingress'' d fmempty)) \<and>
    data r (EApp (this_app self)) = Some bag \<longrightarrow>
      publish_ingress_data Y self r d =
        (None, set_app_data r (this_app self) bag
                 (safe_dump Y (YMap (fmupd ''ingress'' d fmempty)))))"
  by (auto simp: publish_ingress_data_def validate_data_def app_databag_def databag_of_def serialize_data_def
      Let_def split: option.splits)

lemma published_neq_fresh: "published_relation \<noteq> fresh_relation"
proof
  assume "published_relation = fresh_relation"
  then have "map_option (\<lambda>bag. bag ''data'') (data published_relation (EApp traefik))
             = map_option (\<lambda>bag. bag ''data'') (data fresh_relation (EApp traefik))"
    by simp
  then show False
    by (simp add: published_relation_def set_app_data_def fresh_relation_def)
qed

theorem publish_ingress_data_atomic_witness:
  "publish_ingress_data demo_yaml demo_follower fresh_relation agg_ingress =
     (Some (RelationPermissionError fresh_relation traefik0 ''This unit is not the leader''),
      fresh_relation) \<and>
   publish_ingress_data demo_yaml demo_leader fresh_relation (YStr ''oops'') =
     (Some (DataValidationError bad INGRESS_PROVIDES_APP_SCHEMA), fresh_relation) \<and>
   publish_ingress_data demo_yaml demo_leader fresh_relation agg_ingress =
     (None, published_relation) \<and>
   published_relation \<noteq> fresh_relation"
  using publish_ingress_data_atomic
      [where self = demo_follower and Y = demo_yaml and r = fresh_relation and d = agg_ingress]
    publish_ingress_data_atomic
      [where self = demo_leader and Y = demo_yaml and r = fresh_relation and d = "YStr ''oops''"]
    publish_ingress_data_atomic
      [where self = demo_leader and Y = demo_yaml and r = fresh_relation and d = agg_ingress
         and bag = Map.empty]
    is_valid_agg not_is_valid_bad published_neq_fresh
  by (simp add: demo_follower_def demo_leader_def agg_def[symmetric] bad_def[symmetric]
      demo_dump_agg published_relation_def fresh_relation_def)

section \<open>Publishing one URL\<close>

text \<open>
  C3 (as stated). On a provider databag whose text fails the schema, \<^verbatim>\<open>publish_url\<close>
  would still write the new entry. It does not: the call returns and the relation is as
  it was.
\<close>

theorem publish_url_corrupt_counterexample:
  "data corrupt_relation (EApp traefik) = Some [''data'' \<mapsto> bad_text] \<and>
   safe_load demo_yaml bad_text = Some bad \<and>
   \<not> is_valid INGRESS_PROVIDES_APP_SCHEMA bad \<and>
   publish_url demo_yaml demo_leader corrupt_relation ''web/0'' ''http://example/web-0''
     = (None, corrupt_relation)"
  by (simp add: publish_url_def app_databag_def databag_of_def demo_leader_def corrupt_relation_def
      set_app_data_def fresh_relation_def truthy_raw_def text_nonempty deserialize_data_def
      demo_load_simps validate_data_def not_is_valid_bad)

text \<open>
  C3 (amended). On the leader, when the provider's databag has no text, or an empty one,
  \<^verbatim>\<open>publish_url\<close> starts from the empty aggregate and writes the aggregate that holds
  the new entry alone. When the text loads as a document that fails the schema, the
  call returns without an exception and without writing.
\<close>

theorem publish_url_absent_or_corrupt:
  assumes "is_leader self" and "data r (EApp (this_app self)) = Some bag"
  shows "(\<not> truthy_raw (bag ''data'') \<longrightarrow>
            publish_url Y self r n u =
              (None, set_app_data r (this_app self) bag
                 (safe_dump Y (YMap (fmupd ''ingress''
                    (YMap (fmupd n (YMap (fmupd ''url'' (YStr u) fmempty)) fmempty))
                    fmempty))))) \<and>
         (\<forall>t d. bag ''data'' = Some t \<and> t \<noteq> [] \<and> safe_load Y t = Some d \<and>
                 \<not> is_valid INGRESS_PROVIDES_APP_SCHEMA d \<longrightarrow>
            publish_url Y self r n u = (None, r))"
  using assms
  by (auto simp: publish_url_def app_databag_def databag_of_def truthy_raw_def validate_data_def
      is_valid_empty_aggregate set_ingress_url_def serialize_data_def deserialize_data_def)

theorem publish_url_absent_or_corrupt_witness:
  "publish_url demo_yaml demo_leader fresh_relation ''web/0'' ''http://example/web-0''
     = (None, published_relation) \<and>
   publish_url demo_yaml demo_leader corrupt_relation ''web/0'' ''http://example/web-0''
     = (None, corrupt_relation)"
proof -
  have leader: "is_leader demo_leader"
    by (simp add: demo_leader_def)
  have fresh: "data fresh_relation (EApp (this_app demo_leader)) = Some Map.empty"
    by (simp add: fresh_relation_def demo_leader_def)
  have corrupt: "data corrupt_relation (EApp (this_app demo_leader)) = Some [''data'' \<mapsto> bad_text]"
    by (simp add: corrupt_relation_def set_app_data_def demo_leader_def)
  from publish_url_absent_or_corrupt [OF leader fresh, of demo_yaml "''web/0''" "''http://example/web-0''"]
  have 1: "publish_url demo_yaml demo_leader fresh_relation ''web/0'' ''http://example/web-0''
     = (None, published_relation)"
    by (simp add: truthy_raw_def published_relation_def demo_leader_def
        agg_def[symmetric] agg_ingress_def[symmetric] demo_dump_agg)
  from publish_url_absent_or_corrupt [OF leader corrupt, of demo_yaml "''web/0''" "''http://example/web-0''"]
  have 2: "publish_url demo_yaml demo_leader corrupt_relation ''web/0'' ''http://example/web-0''
     = (None, corrupt_relation)"
    by (simp add: text_nonempty demo_load_simps not_is_valid_bad)
  from 1 2 show ?thesis by simp
qed

lemma py_getitem_error: "py_getitem d k = Inl e \<Longrightarrow> e = KeyError \<or> e = TypeError"
  by (cases d) (auto split: option.splits)

lemma set_ingress_url_error:
  "set_ingress_url d n u = Inl e \<Longrightarrow> e = KeyError \<or> e = TypeError"
  by (auto simp: set_ingress_url_def split: sum.splits yaml.splits dest: py_getitem_error)

text \<open>
  C4 (as stated). A unit that is not the leader would get RelationPermissionError from
  \<^verbatim>\<open>publish_url\<close>. The exception it gets is the framework's refusal of the access to
  the application databag.
\<close>

theorem publish_url_follower_counterexample:
  "\<not> is_leader demo_follower \<and>
   publish_url demo_yaml demo_follower fresh_relation ''web/0'' ''http://example/web-0''
     = (Some RelationDataAccessError, fresh_relation) \<and>
   (\<forall>rel ent msg. RelationDataAccessError \<noteq> RelationPermissionError rel ent msg)"
  by (simp add: publish_url_def app_databag_def databag_of_def demo_follower_def
      demo_leader_def fresh_relation_def)

text \<open>
  C4 (amended). \<^verbatim>\<open>publish_url\<close> has no leadership check of its own and never raises
  RelationPermissionError. When a unit that is not the leader calls it, the call
  raises at its first access to the application databag and the relation is left as it
  was; when the relation has that databag, the exception is the framework's refusal.
\<close>

theorem publish_url_follower:
  "(\<forall>rel ent msg.
      fst (publish_url Y self r n u) \<noteq> Some (RelationPermissionError rel ent msg)) \<and>
   (\<not> is_leader self \<longrightarrow>
      fst (publish_url Y self r n u) \<noteq> None \<and> snd (publish_url Y self r n u) = r) \<and>
   (\<not> is_leader self \<and> data r (EApp (this_app self)) \<noteq> None \<longrightarrow>
      publish_url Y self r n u = (Some RelationDataAccessError, r))"
proof (intro conjI allI impI)
  fix rel ent msg
  show "fst (publish_url Y self r n u) \<noteq> Some (RelationPermissionError rel ent msg)"
    by (auto simp: publish_url_def app_databag_def databag_of_def validate_data_def
        deserialize_data_def
        split: sum.splits option.splits if_splits dest: set_ingress_url_error)
next
  assume "\<not> is_leader self"
  then show "fst (publish_url Y self r n u) \<noteq> None"
    and "snd (publish_url Y self r n u) = r"
    by (auto simp: publish_url_def app_databag_def databag_of_def split: option.splits)
next
  assume "\<not> is_leader self \<and> data r (EApp (this_app self)) \<noteq> None"
  then show "publish_url Y self r n u = (Some RelationDataAccessError, r)"
    by (auto simp: publish_url_def app_databag_def databag_of_def)
qed

theorem publish_url_follower_witness:
  "\<not> is_leader demo_follower \<and>
   data fresh_relation (EApp (this_app demo_follower)) = Some Map.empty \<and>
   publish_url demo_yaml demo_follower fresh_relation ''web/0'' ''http://example/web-0''
     = (Some RelationDataAccessError, fresh_relation)"
proof -
  have f: "\<not> is_leader demo_follower"
    "data fresh_relation (EApp (this_app demo_follower)) = Some Map.empty"
    by (simp_all add: demo_follower_def demo_leader_def fresh_relation_def)
  from publish_url_follower
      [where Y = demo_yaml and self = demo_follower and r = fresh_relation
         and n = "''web/0''" and u = "''http://example/web-0''"] f
  have "publish_url demo_yaml demo_follower fresh_relation ''web/0'' ''http://example/web-0''
          = (Some RelationDataAccessError, fresh_relation)"
    by simp
  with f show ?thesis by simp
qed

section \<open>One status notification per pass\<close>

lemma Base_handle_relation_emitted:
  assumes em: "\<And>n p s. n = Ready \<or> n = Available \<or> n = Failed \<Longrightarrow>
                 \<exists>new. emitted (em n p s) = emitted s @ new \<and> status_notifications new = [n]"
  shows "\<exists>new. emitted (snd (Base_handle_relation rdy av fl em self r)) = emitted self @ new \<and>
           (status_notifications new = [] \<longrightarrow> new = []) \<and>
           status_notifications new =
             (if rdy r = Inr True then [Ready]
              else if rdy r = Inr False \<and> av r = Inr True then [Available]
              else if rdy r = Inr False \<and> av r = Inr False \<and> fl r = Inr True then [Failed]
              else [])"
proof -
  have none: "\<exists>new. emitted self = emitted self @ new \<and>
                (status_notifications new = [] \<longrightarrow> new = []) \<and> status_notifications new = []"
    by (simp add: status_notifications_def)
  show ?thesis
  proof (cases "rdy r")
    case (Inl e)
    then show ?thesis using none by (simp add: Base_handle_relation_def)
  next
    case rdy: (Inr b)
    show ?thesis
    proof (cases b)
      case True
      then show ?thesis using rdy em[of Ready "Some r" self] by (auto simp: Base_handle_relation_def)
    next
      case nrdy: False
      show ?thesis
      proof (cases "av r")
        case (Inl e)
        then show ?thesis using none rdy nrdy by (simp add: Base_handle_relation_def)
      next
        case av: (Inr b2)
        show ?thesis
        proof (cases b2)
          case True
          then show ?thesis using rdy nrdy av em[of Available "Some r" self]
            by (auto simp: Base_handle_relation_def)
        next
          case nav: False
          show ?thesis
          proof (cases "fl r")
            case (Inl e)
            then show ?thesis using none rdy nrdy av nav by (simp add: Base_handle_relation_def)
          next
            case fl: (Inr b3)
            show ?thesis
            proof (cases b3)
              case True
              then show ?thesis using rdy nrdy av nav fl em[of Failed "Some r" self]
                by (auto simp: Base_handle_relation_def)
            next
              case False
              then show ?thesis using none rdy nrdy av nav fl
                by (simp add: Base_handle_relation_def)
            qed
          qed
        qed
      qed
    qed
  qed
qed

lemma emit_status:
  "n = Ready \<or> n = Available \<or> n = Failed \<Longrightarrow>
     \<exists>new. emitted (emit n p s) = emitted s @ new \<and> status_notifications new = [n]"
  by (auto simp: emit_def status_notifications_def)

lemma Provider_emit_status:
  "n = Ready \<or> n = Available \<or> n = Failed \<Longrightarrow>
     \<exists>new. emitted (Provider_emit n p s) = emitted s @ new \<and> status_notifications new = [n]"
  by (auto simp: Provider_emit_def emit_def status_notifications_def)

lemma Requirer_publish_ingress_data_emitted:
  "emitted (snd (Requirer_publish_ingress_data Y s host port)) = emitted s"
  by (simp add: Requirer_publish_ingress_data_def Let_def split: list.splits sum.splits)

lemma publish_auto_data_emitted:
  "emitted (snd (publish_auto_data Y s r)) = emitted s"
  by (simp add: publish_auto_data_def Requirer_publish_ingress_data_emitted
      split: option.splits prod.splits sum.splits)

text \<open>
  C5. In one pass of \<^verbatim>\<open>_handle_relation\<close>, on the provider and on the requirer, the
  status notifications appended to those already emitted are: Ready alone when
  \<^verbatim>\<open>is_ready\<close> holds; else Available alone when \<^verbatim>\<open>is_available\<close> holds; else Failed
  alone when \<^verbatim>\<open>is_failed\<close> holds; and none when all three are false or one of them
  raises. So there is never more than one, and where there is none, no notification
  at all is emitted.
\<close>

theorem handle_relation_one_status:
  "(\<exists>new. emitted (snd (Provider_handle_relation Y p r)) = emitted p @ new \<and>
      length (status_notifications new) \<le> 1 \<and>
      (status_notifications new = [] \<longrightarrow> new = []) \<and>
      status_notifications new =
        (if Provider_is_ready Y p r = Inr True then [Ready]
         else if Provider_is_ready Y p r = Inr False \<and> is_available r = Inr True
         then [Available]
         else if Provider_is_ready Y p r = Inr False \<and> is_available r = Inr False \<and>
                 Provider_is_failed Y p r = Inr True
         then [Failed]
         else [])) \<and>
   (\<exists>new. emitted (snd (Requirer_handle_relation Y q r)) = emitted q @ new \<and>
      length (status_notifications new) \<le> 1 \<and>
      (status_notifications new = [] \<longrightarrow> new = []) \<and>
      status_notifications new =
        (if Requirer_is_ready Y q r = Inr True then [Ready]
         else if Requirer_is_ready Y q r = Inr False \<and> is_available r = Inr True
         then [Available]
         else if Requirer_is_ready Y q r = Inr False \<and> is_available r = Inr False \<and>
                 Requirer_is_failed Y q r = Inr True
         then [Failed]
         else []))"
proof
  from Base_handle_relation_emitted
    [of Provider_emit "Provider_is_ready Y p" is_available "Provider_is_failed Y p" p r,
     OF Provider_emit_status]
  obtain new where
    "emitted (snd (Provider_handle_relation Y p r)) = emitted p @ new"
    "status_notifications new = [] \<longrightarrow> new = []"
    "status_notifications new =
        (if Provider_is_ready Y p r = Inr True then [Ready]
         else if Provider_is_ready Y p r = Inr False \<and> is_available r = Inr True
         then [Available]
         else if Provider_is_ready Y p r = Inr False \<and> is_available r = Inr False \<and>
                 Provider_is_failed Y p r = Inr True
         then [Failed]
         else [])"
    unfolding Provider_handle_relation_def by blast
  then show "\<exists>new. emitted (snd (Provider_handle_relation Y p r)) = emitted p @ new \<and>
      length (status_notifications new) \<le> 1 \<and>
      (status_notifications new = [] \<longrightarrow> new = []) \<and>
      status_notifications new =
        (if Provider_is_ready Y p r = Inr True then [Ready]
         else if Provider_is_ready Y p r = Inr False \<and> is_available r = Inr True
         then [Available]
         else if Provider_is_ready Y p r = Inr False \<and> is_available r = Inr False \<and>
                 Provider_is_failed Y p r = Inr True
         then [Failed]
         else [])"
    by (intro exI[of _ new]) simp
next
  let ?base = "Base_handle_relation (Requirer_is_ready Y q) is_available
                 (Requirer_is_failed Y q) emit q r"
  from Base_handle_relation_emitted
    [of emit "Requirer_is_ready Y q" is_available "Requirer_is_failed Y q" q r, OF emit_status]
  obtain new where
    base: "emitted (snd ?base) = emitted q @ new" and
    nil: "status_notifications new = [] \<longrightarrow> new = []" and
    st: "status_notifications new =
        (if Requirer_is_ready Y q r = Inr True then [Ready]
         else if Requirer_is_ready Y q r = Inr False \<and> is_available r = Inr True
         then [Available]
         else if Requirer_is_ready Y q r = Inr False \<and> is_available r = Inr False \<and>
                 Requirer_is_failed Y q r = Inr True
         then [Failed]
         else [])"
    by blast
  have "emitted (snd (Requirer_handle_relation Y q r)) = emitted (snd ?base)"
    by (cases ?base) (auto simp: Requirer_handle_relation_def publish_auto_data_emitted
        split: option.splits)
  with base nil st show "\<exists>new. emitted (snd (Requirer_handle_relation Y q r)) = emitted q @ new \<and>
      length (status_notifications new) \<le> 1 \<and>
      (status_notifications new = [] \<longrightarrow> new = []) \<and>
      status_notifications new =
        (if Requirer_is_ready Y q r = Inr True then [Ready]
         else if Requirer_is_ready Y q r = Inr False \<and> is_available r = Inr True
         then [Available]
         else if Requirer_is_ready Y q r = Inr False \<and> is_available r = Inr False \<and>
                 Requirer_is_failed Y q r = Inr True
         then [Failed]
         else [])"
    by (intro exI[of _ new]) simp
qed

lemma is_valid_rec0: "is_valid INGRESS_REQUIRES_UNIT_SCHEMA rec0"
  by (simp add: INGRESS_REQUIRES_UNIT_SCHEMA_def str_schema_def int_schema_def rec0_def)

lemma is_valid_rec1: "is_valid INGRESS_REQUIRES_UNIT_SCHEMA rec1"
  by (simp add: INGRESS_REQUIRES_UNIT_SCHEMA_def str_schema_def int_schema_def rec1_def)

lemma is_valid_rec2: "is_valid INGRESS_REQUIRES_UNIT_SCHEMA rec2"
  by (simp add: INGRESS_REQUIRES_UNIT_SCHEMA_def str_schema_def int_schema_def rec2_def)

lemma unit_apps: "u_app web0 \<noteq> traefik" "u_app web1 \<noteq> traefik" "web0 \<noteq> web1"
  by (simp_all add: web0_def web1_def web_def traefik_def)

lemma fetch_fresh:
  "fetch_relation_data demo_yaml demo_leader fresh_relation False
     = Inr (YMap fmempty, [(web0, YMap fmempty), (web1, YMap fmempty)])"
  by (simp add: fetch_relation_data_def fetch_provider_app_def app_databag_def databag_of_def demo_leader_def
      fresh_relation_def web_def truthy_raw_def unit_apps[unfolded web_def])

lemma Provider_is_ready_fresh:
  "Provider_is_ready demo_yaml demo_leader fresh_relation = Inr False"
proof -
  have "Base_is_ready fresh_relation"
    by (simp add: Base_is_ready_def fresh_relation_def web_def)
  then show ?thesis
    by (simp add: Provider_is_ready_def fetch_fresh)
qed

lemma is_available_fresh: "is_available fresh_relation = Inr True"
  by (simp add: is_available_def fresh_relation_def web_def)

lemma fetch_mismatch:
  "fetch_relation_data demo_yaml demo_leader mismatch_relation True
     = Inr (YMap fmempty, [(web0, rec0), (web1, rec1)])"
  by (simp add: fetch_relation_data_def fetch_provider_app_def app_databag_def databag_of_def demo_leader_def
      mismatch_relation_def web_def truthy_raw_def unit_apps[unfolded web_def]
      text_nonempty deserialize_data_def demo_load_simps validate_data_def
      is_valid_rec0 is_valid_rec1)

lemma rec_models:
  "py_getitem rec0 ''model'' = Inr (YStr ''m1'')"
  "py_getitem rec1 ''model'' = Inr (YStr ''m2'')"
  "py_contains ''model'' rec0 = Inr True"
  "py_contains ''model'' rec1 = Inr True"
  by (simp_all add: rec0_def rec1_def)

lemma Provider_is_failed_mismatch_demo:
  "Provider_is_failed demo_yaml demo_leader mismatch_relation
     = Inl (RelationDataMismatchError mismatch_relation web1)"
proof -
  have "app mismatch_relation = Some web" "app_name web \<noteq> []" "units mismatch_relation \<noteq> []"
    by (simp_all add: mismatch_relation_def web_def)
  then show ?thesis
    by (simp add: Provider_is_failed_def fetch_mismatch rec_models)
qed

lemma Requirer_is_ready_demo:
  "Requirer_is_ready demo_yaml demo_requirer stale_relation = Inr True"
proof -
  have "Base_is_ready stale_relation"
    by (simp add: Base_is_ready_def stale_relation_def traefik_def)
  moreover have "u_name (this_unit demo_requirer) = ''web/0''"
    by (simp add: demo_requirer_def Requirer_init_def web0_def)
  ultimately show ?thesis
    by (simp add: Requirer_is_ready_def url_def urls_demo)
qed

theorem handle_relation_one_status_witness:
  "Provider_is_ready demo_yaml demo_leader fresh_relation = Inr False \<and>
   is_available fresh_relation = Inr True \<and>
   (\<exists>new. emitted (snd (Provider_handle_relation demo_yaml demo_leader fresh_relation))
            = emitted demo_leader @ new \<and>
          status_notifications new = [Available]) \<and>
   Requirer_is_ready demo_yaml demo_requirer stale_relation = Inr True \<and>
   (\<exists>new. emitted (snd (Requirer_handle_relation demo_yaml demo_requirer stale_relation))
            = emitted demo_requirer @ new \<and>
          status_notifications new = [Ready])"
proof -
  from handle_relation_one_status
      [where Y = demo_yaml and p = demo_leader and q = demo_requirer and r = fresh_relation]
  have 1: "\<exists>new. emitted (snd (Provider_handle_relation demo_yaml demo_leader fresh_relation))
            = emitted demo_leader @ new \<and>
          status_notifications new = [Available]"
    by (simp add: Provider_is_ready_fresh is_available_fresh) blast
  from handle_relation_one_status
      [where Y = demo_yaml and p = demo_leader and q = demo_requirer and r = stale_relation]
  have 2: "\<exists>new. emitted (snd (Requirer_handle_relation demo_yaml demo_requirer stale_relation))
            = emitted demo_requirer @ new \<and>
          status_notifications new = [Ready]"
    by (simp add: Requirer_is_ready_demo) blast
  from 1 2 Provider_is_ready_fresh is_available_fresh Requirer_is_ready_demo
  show ?thesis by simp
qed

section \<open>Units that publish different models\<close>

lemma is_valid_requires_map:
  "is_valid INGRESS_REQUIRES_UNIT_SCHEMA d \<Longrightarrow> \<exists>m. d = YMap m"
  by (cases d) (simp_all add: INGRESS_REQUIRES_UNIT_SCHEMA_def)

lemma check_models_skip:
  assumes "\<forall>(u, d) \<in> set pre. py_contains ''model'' d = Inr False"
  shows "check_models r expected (pre @ rest) = check_models r expected rest"
  using assms by (induction pre) auto

lemma py_getitem_contains:
  "py_getitem d k = Inr v \<Longrightarrow> py_contains k d = Inr True"
  by (cases d) (auto simp: fmlookup_dom'_iff split: option.splits)

lemma fetch_remote_units_fst:
  "fetch_remote_units Y r validate us = Inr rud \<Longrightarrow> map fst rud = us"
  by (induction us arbitrary: rud) (auto split: sum.splits if_splits)

lemma fetch_remote_units_maps:
  "fetch_remote_units Y r True us = Inr rud \<Longrightarrow> list_all (\<lambda>(u, d). \<exists>m. d = YMap m) rud"
  by (induction us arbitrary: rud)
     (auto simp: validate_data_def split: sum.splits if_splits dest: is_valid_requires_map)

lemma fetch_relation_data_units:
  assumes "fetch_relation_data Y self r validate = Inr (pad, rud)"
  shows "set (map fst rud) \<subseteq> set (units r)"
proof (cases "case app r of None \<Rightarrow> True | Some a \<Rightarrow> app_name a = []")
  case True
  with assms show ?thesis by (simp add: fetch_relation_data_def)
next
  case False
  with assms have "fetch_remote_units Y r validate
      (filter (\<lambda>u. u_app u \<noteq> this_app self) (units r)) = Inr rud"
    by (auto simp: fetch_relation_data_def split: sum.splits)
  from fetch_remote_units_fst[OF this] show ?thesis by auto
qed

lemma fetch_relation_data_maps:
  assumes "fetch_relation_data Y self r True = Inr (pad, rud)"
  shows "list_all (\<lambda>(u, d). \<exists>m. d = YMap m) rud"
proof (cases "case app r of None \<Rightarrow> True | Some a \<Rightarrow> app_name a = []")
  case True
  with assms show ?thesis by (simp add: fetch_relation_data_def)
next
  case False
  with assms have "fetch_remote_units Y r True
      (filter (\<lambda>u. u_app u \<noteq> this_app self) (units r)) = Inr rud"
    by (auto simp: fetch_relation_data_def split: sum.splits)
  from fetch_remote_units_maps[OF this] show ?thesis .
qed

text \<open>
  With an expected model in hand, the loop raises at the first record whose model
  differs from it.
\<close>

lemma check_models_expected:
  assumes "list_all (\<lambda>(u, d). \<exists>m. d = YMap m) rud" and "truthy e"
    and "(u1, d1) \<in> set rud" and "py_getitem d1 ''model'' = Inr m1" and "m1 \<noteq> e"
  shows "\<exists>pre u d post m. rud = pre @ (u, d) # post \<and>
           check_models r e rud = Inl (RelationDataMismatchError r u) \<and>
           check_models r e pre = Inr False \<and>
           py_getitem d ''model'' = Inr m \<and> m \<noteq> e"
  using assms
proof (induction rud)
  case Nil
  then show ?case by simp
next
  case (Cons x rud)
  obtain u d where x: "x = (u, d)" by (cases x)
  with Cons.prems obtain mm where d: "d = YMap mm"
    and rest: "list_all (\<lambda>(u, d). \<exists>m. d = YMap m) rud" by auto
  have tail: "\<exists>pre u' d' post m. x # rud = pre @ (u', d') # post \<and>
           check_models r e (x # rud) = Inl (RelationDataMismatchError r u') \<and>
           check_models r e pre = Inr False \<and>
           py_getitem d' ''model'' = Inr m \<and> m \<noteq> e"
    if step: "check_models r e (x # rud) = check_models r e rud"
      and one: "check_models r e [x] = Inr False"
      and other: "(u1, d1) \<in> set rud"
  proof -
    from Cons.IH[OF rest Cons.prems(2) other Cons.prems(4,5)]
    obtain pre u' d' post m where p: "rud = pre @ (u', d') # post"
      and raise: "check_models r e rud = Inl (RelationDataMismatchError r u')"
      and quiet: "check_models r e pre = Inr False"
      and m: "py_getitem d' ''model'' = Inr m" "m \<noteq> e" by blast
    have "check_models r e (x # pre) = Inr False"
      using one quiet Cons.prems(2) unfolding x d
      by (cases "fmlookup mm ''model''") (auto simp: fmlookup_dom'_iff split: if_splits)
    with p raise m step show ?thesis
      by (intro exI[of _ "x # pre"] exI[of _ u'] exI[of _ d'] exI[of _ post] exI[of _ m]) simp
  qed
  show ?case
  proof (cases "fmlookup mm ''model''")
    case None
    then have "(u1, d1) \<noteq> x" using Cons.prems(4) x d by auto
    with Cons.prems(3) have other: "(u1, d1) \<in> set rud" by auto
    show ?thesis
      using tail[OF _ _ other] None x d by (simp add: fmlookup_dom'_iff)
  next
    case (Some mv)
    show ?thesis
    proof (cases "mv = e")
      case True
      then have "(u1, d1) \<noteq> x" using Cons.prems(4,5) Some x d by auto
      with Cons.prems(3) have other: "(u1, d1) \<in> set rud" by auto
      show ?thesis
        using tail[OF _ _ other] Some True x d Cons.prems(2) by (simp add: fmlookup_dom'_iff)
    next
      case False
      then have "check_models r e (x # rud) = Inl (RelationDataMismatchError r u)"
        using Some x d Cons.prems(2) by (auto simp: fmlookup_dom'_iff)
      moreover have "py_getitem d ''model'' = Inr mv" using Some d by simp
      ultimately show ?thesis using False x
        by (intro exI[of _ "[]"] exI[of _ u] exI[of _ d] exI[of _ rud] exI[of _ mv]) simp
    qed
  qed
qed

text \<open>
  Before any model is expected, two records with different non-empty models make the
  loop raise, at a record whose model differs from the non-empty model of a record
  before it.
\<close>

lemma check_models_two:
  assumes "list_all (\<lambda>(u, d). \<exists>m. d = YMap m) rud" and "\<not> truthy e"
    and "(u1, d1) \<in> set rud" and "py_getitem d1 ''model'' = Inr m1" and "truthy m1"
    and "(u2, d2) \<in> set rud" and "py_getitem d2 ''model'' = Inr m2" and "truthy m2"
    and "m1 \<noteq> m2"
  shows "\<exists>pre u d post m u0 d0 m0. rud = pre @ (u, d) # post \<and>
           check_models r e rud = Inl (RelationDataMismatchError r u) \<and>
           check_models r e pre = Inr False \<and>
           (u0, d0) \<in> set pre \<and> py_getitem d0 ''model'' = Inr m0 \<and> truthy m0 \<and>
           py_getitem d ''model'' = Inr m \<and> m \<noteq> m0"
  using assms
proof (induction rud arbitrary: e)
  case Nil
  then show ?case by simp
next
  case (Cons x rud)
  obtain u d where x: "x = (u, d)" by (cases x)
  with Cons.prems obtain mm where d: "d = YMap mm"
    and rest: "list_all (\<lambda>(u, d). \<exists>m. d = YMap m) rud" by auto
  have later: "\<exists>pre u' d' post m u0 d0 m0. x # rud = pre @ (u', d') # post \<and>
           check_models r e (x # rud) = Inl (RelationDataMismatchError r u') \<and>
           check_models r e pre = Inr False \<and>
           (u0, d0) \<in> set pre \<and> py_getitem d0 ''model'' = Inr m0 \<and> truthy m0 \<and>
           py_getitem d' ''model'' = Inr m \<and> m \<noteq> m0"
    if step: "\<And>l. check_models r e (x # l) = check_models r e' l"
      and falsy: "\<not> truthy e'"
      and both: "(u1, d1) \<in> set rud" "(u2, d2) \<in> set rud" for e'
  proof -
    from Cons.IH[OF rest falsy both(1) Cons.prems(4,5) both(2) Cons.prems(7,8,9)]
    obtain pre u' d' post m u0 d0 m0 where p: "rud = pre @ (u', d') # post"
      and raise: "check_models r e' rud = Inl (RelationDataMismatchError r u')"
      and quiet: "check_models r e' pre = Inr False"
      and first: "(u0, d0) \<in> set pre" "py_getitem d0 ''model'' = Inr m0" "truthy m0"
      and m: "py_getitem d' ''model'' = Inr m" "m \<noteq> m0" by blast
    from p raise quiet first m step[of rud] step[of pre] show ?thesis
      by (intro exI[of _ "x # pre"] exI[of _ u'] exI[of _ d'] exI[of _ post] exI[of _ m]
          exI[of _ u0] exI[of _ d0] exI[of _ m0]) simp
  qed
  show ?case
  proof (cases "fmlookup mm ''model''")
    case None
    then have "(u1, d1) \<noteq> x" "(u2, d2) \<noteq> x" using Cons.prems(4,7) x d by auto
    with Cons.prems(3,6) have both: "(u1, d1) \<in> set rud" "(u2, d2) \<in> set rud" by auto
    show ?thesis
      using later[OF _ Cons.prems(2) both] None x d by (simp add: fmlookup_dom'_iff)
  next
    case (Some mv)
    have step: "check_models r e (x # l) = check_models r mv l" for l
      using Some x d Cons.prems(2) by (simp add: fmlookup_dom'_iff)
    show ?thesis
    proof (cases "truthy mv")
      case False
      then have "(u1, d1) \<noteq> x" "(u2, d2) \<noteq> x"
        using Cons.prems(4,5,7,8) Some x d by auto
      with Cons.prems(3,6) have both: "(u1, d1) \<in> set rud" "(u2, d2) \<in> set rud" by auto
      show ?thesis using later[OF step False both] .
    next
      case True
      have "\<exists>u3 d3 m3. (u3, d3) \<in> set rud \<and> py_getitem d3 ''model'' = Inr m3 \<and> m3 \<noteq> mv"
      proof (cases "m1 = mv")
        case eq: True
        then have "(u2, d2) \<noteq> x" using Cons.prems(7,9) Some x d by auto
        with Cons.prems(6) have "(u2, d2) \<in> set rud" by auto
        with Cons.prems(7,9) eq show ?thesis by blast
      next
        case neq: False
        then have "(u1, d1) \<noteq> x" using Cons.prems(4) Some x d by auto
        with Cons.prems(3) have "(u1, d1) \<in> set rud" by auto
        with Cons.prems(4) neq show ?thesis by blast
      qed
      then obtain u3 d3 m3 where three: "(u3, d3) \<in> set rud"
        "py_getitem d3 ''model'' = Inr m3" "m3 \<noteq> mv" by blast
      from check_models_expected[OF rest True three, of r]
      obtain pre u' d' post m where p: "rud = pre @ (u', d') # post"
        and raise: "check_models r mv rud = Inl (RelationDataMismatchError r u')"
        and quiet: "check_models r mv pre = Inr False"
        and m: "py_getitem d' ''model'' = Inr m" "m \<noteq> mv" by blast
      have "py_getitem d ''model'' = Inr mv" using Some d by simp
      with p raise quiet m True step[of rud] step[of pre] x show ?thesis
        by (intro exI[of _ "x # pre"] exI[of _ u'] exI[of _ d'] exI[of _ post] exI[of _ m]
            exI[of _ u] exI[of _ d] exI[of _ mv]) simp
    qed
  qed
qed

text \<open>
  C2 (as stated). With two units that publish the models \<open>m1\<close> and \<open>m2\<close>,
  \<^verbatim>\<open>is_failed\<close> would return true. It returns nothing: it raises.
\<close>

theorem Provider_is_failed_mismatch_counterexample:
  "units mismatch_relation = [web0, web1] \<and>
   py_getitem rec0 ''model'' = Inr (YStr ''m1'') \<and>
   py_getitem rec1 ''model'' = Inr (YStr ''m2'') \<and>
   Provider_is_failed demo_yaml demo_leader mismatch_relation \<noteq> Inr True"
proof -
  have "units mismatch_relation = [web0, web1]"
    by (simp add: mismatch_relation_def)
  then show ?thesis
    by (simp add: Provider_is_failed_mismatch_demo rec_models)
qed

text \<open>
  C2 (amended). On a relation whose remote application has a name and whose databags
  all pass the validated fetch, let two remote units have published different
  non-empty models. Then \<^verbatim>\<open>is_failed\<close> does not return: it raises
  RelationDataMismatchError, which carries the relation and the offending unit. That
  unit is the first one visited whose model differs from the non-empty model of a unit
  visited before it; no unit before it offends. It is the second of the two units
  whenever the units visited before it, other than the first of the two, have
  published no model.
\<close>

theorem Provider_is_failed_mismatch:
  assumes "app r = Some a" and "app_name a \<noteq> []"
    and fetch: "fetch_relation_data Y self r True = Inr (pad, rud)"
    and in1: "(u1, d1) \<in> set rud" and in2: "(u2, d2) \<in> set rud"
    and m1: "py_getitem d1 ''model'' = Inr (YStr m1)"
    and m2: "py_getitem d2 ''model'' = Inr (YStr m2)"
    and "m1 \<noteq> []" and "m2 \<noteq> []" and "m1 \<noteq> m2"
  shows "(\<exists>pre u d post m u0 d0 m0.
            rud = pre @ (u, d) # post \<and> u \<in> set (units r) \<and>
            Provider_is_failed Y self r = Inl (RelationDataMismatchError r u) \<and>
            check_models r YNull pre = Inr False \<and>
            (u0, d0) \<in> set pre \<and> py_getitem d0 ''model'' = Inr m0 \<and> truthy m0 \<and>
            py_getitem d ''model'' = Inr m \<and> m \<noteq> m0) \<and>
         (\<forall>pre mid post.
            rud = pre @ (u1, d1) # mid @ (u2, d2) # post \<and>
            (\<forall>(u, d) \<in> set (pre @ mid). py_contains ''model'' d = Inr False) \<longrightarrow>
            Provider_is_failed Y self r = Inl (RelationDataMismatchError r u2))"
proof
  from in1 fetch_relation_data_units[OF fetch] have units: "units r \<noteq> []" by auto
  have res: "Provider_is_failed Y self r = check_models r YNull rud"
    using assms(1,2) units fetch by (simp add: Provider_is_failed_def)
  from check_models_two[OF fetch_relation_data_maps[OF fetch] _ in1 m1 _ in2 m2, of YNull r]
    \<open>m1 \<noteq> []\<close> \<open>m2 \<noteq> []\<close> \<open>m1 \<noteq> m2\<close>
  obtain pre u d post m u0 d0 m0 where p: "rud = pre @ (u, d) # post"
    and raise: "check_models r YNull rud = Inl (RelationDataMismatchError r u)"
    and rest: "check_models r YNull pre = Inr False" "(u0, d0) \<in> set pre"
      "py_getitem d0 ''model'' = Inr m0" "truthy m0" "py_getitem d ''model'' = Inr m" "m \<noteq> m0"
    by auto
  from p fetch_relation_data_units[OF fetch] have "u \<in> set (units r)" by auto
  with p raise rest res
  show "\<exists>pre u d post m u0 d0 m0.
            rud = pre @ (u, d) # post \<and> u \<in> set (units r) \<and>
            Provider_is_failed Y self r = Inl (RelationDataMismatchError r u) \<and>
            check_models r YNull pre = Inr False \<and>
            (u0, d0) \<in> set pre \<and> py_getitem d0 ''model'' = Inr m0 \<and> truthy m0 \<and>
            py_getitem d ''model'' = Inr m \<and> m \<noteq> m0"
    by (intro exI[of _ pre] exI[of _ u] exI[of _ d] exI[of _ post] exI[of _ m]
        exI[of _ u0] exI[of _ d0] exI[of _ m0]) simp
  show "\<forall>pre mid post.
            rud = pre @ (u1, d1) # mid @ (u2, d2) # post \<and>
            (\<forall>(u, d) \<in> set (pre @ mid). py_contains ''model'' d = Inr False) \<longrightarrow>
            Provider_is_failed Y self r = Inl (RelationDataMismatchError r u2)"
  proof (intro allI impI)
    fix pre mid post
    assume h: "rud = pre @ (u1, d1) # mid @ (u2, d2) # post \<and>
            (\<forall>(u, d) \<in> set (pre @ mid). py_contains ''model'' d = Inr False)"
    then have pre: "\<forall>(u, d) \<in> set pre. py_contains ''model'' d = Inr False"
      and mid: "\<forall>(u, d) \<in> set mid. py_contains ''model'' d = Inr False"
      by auto
    have "check_models r YNull (pre @ (u1, d1) # mid @ (u2, d2) # post)
            = check_models r YNull ((u1, d1) # mid @ (u2, d2) # post)"
      by (rule check_models_skip[OF pre])
    also have "\<dots> = check_models r (YStr m1) (mid @ (u2, d2) # post)"
      using m1 py_getitem_contains[OF m1] by simp
    also have "\<dots> = check_models r (YStr m1) ((u2, d2) # post)"
      by (rule check_models_skip[OF mid])
    also have "\<dots> = Inl (RelationDataMismatchError r u2)"
      using m2 py_getitem_contains[OF m2] \<open>m1 \<noteq> []\<close> \<open>m1 \<noteq> m2\<close> by simp
    finally show "Provider_is_failed Y self r = Inl (RelationDataMismatchError r u2)"
      using res h by simp
  qed
qed

lemma fetch_three:
  "fetch_relation_data demo_yaml demo_leader three_relation True
     = Inr (YMap fmempty, [(web0, rec0), (web2, rec2), (web1, rec1)])"
  by (simp add: fetch_relation_data_def fetch_provider_app_def app_databag_def databag_of_def
      demo_leader_def three_relation_def web_def truthy_raw_def web0_def web1_def web2_def
      traefik_def text_nonempty deserialize_data_def demo_load_simps validate_data_def
      is_valid_rec0 is_valid_rec1 is_valid_rec2)

lemma Provider_is_failed_three_demo:
  "Provider_is_failed demo_yaml demo_leader three_relation
     = Inl (RelationDataMismatchError three_relation web1)"
proof -
  have "app three_relation = Some web" "app_name web \<noteq> []" "units three_relation \<noteq> []"
    by (simp_all add: three_relation_def web_def)
  moreover have "py_getitem rec2 ''model'' = Inr (YStr ''m1'')"
    "py_contains ''model'' rec2 = Inr True"
    by (simp_all add: rec2_def)
  ultimately show ?thesis
    by (simp add: Provider_is_failed_def fetch_three rec_models)
qed

theorem Provider_is_failed_mismatch_witness:
  "fetch_relation_data demo_yaml demo_leader mismatch_relation True
     = Inr (YMap fmempty, [(web0, rec0), (web1, rec1)]) \<and>
   Provider_is_failed demo_yaml demo_leader mismatch_relation
     = Inl (RelationDataMismatchError mismatch_relation web1) \<and>
   fetch_relation_data demo_yaml demo_leader three_relation True
     = Inr (YMap fmempty, [(web0, rec0), (web2, rec2), (web1, rec1)]) \<and>
   Provider_is_failed demo_yaml demo_leader three_relation
     = Inl (RelationDataMismatchError three_relation web1)"
proof -
  have a: "app mismatch_relation = Some web" and a3: "app three_relation = Some web"
    and n: "app_name web \<noteq> []"
    by (simp_all add: mismatch_relation_def three_relation_def web_def)
  have i0: "(web0, rec0) \<in> set [(web0, rec0), (web1, rec1)]"
    and i1: "(web1, rec1) \<in> set [(web0, rec0), (web1, rec1)]"
    and j0: "(web0, rec0) \<in> set [(web0, rec0), (web2, rec2), (web1, rec1)]"
    and j1: "(web1, rec1) \<in> set [(web0, rec0), (web2, rec2), (web1, rec1)]"
    by simp_all
  have ne: "''m1'' \<noteq> []" "''m2'' \<noteq> []" and diff: "''m1'' \<noteq> ''m2''"
    by simp_all
  note two = Provider_is_failed_mismatch
    [OF a n fetch_mismatch i0 i1 rec_models(1) rec_models(2) ne diff]
  note three = Provider_is_failed_mismatch
    [OF a3 n fetch_three j0 j1 rec_models(1) rec_models(2) ne diff]
  from two have "Provider_is_failed demo_yaml demo_leader mismatch_relation
     = Inl (RelationDataMismatchError mismatch_relation web1)"
    by (elim conjE allE[of _ "[]"]) simp
  moreover from three
  have "\<exists>u. Provider_is_failed demo_yaml demo_leader three_relation
          = Inl (RelationDataMismatchError three_relation u)"
    by blast
  then have "Provider_is_failed demo_yaml demo_leader three_relation
     = Inl (RelationDataMismatchError three_relation web1)"
    by (simp add: Provider_is_failed_three_demo)
  ultimately show ?thesis using fetch_mismatch fetch_three by simp
qed

section \<open>What the predicates raise\<close>

lemma Provider_is_ready_returns: "\<exists>b. Provider_is_ready Y p r = Inr b"
  by (auto simp: Provider_is_ready_def split: sum.splits prod.splits)

lemma fetch_provider_app_validated:
  assumes "is_leader p \<longrightarrow> readable Y r (EApp (this_app p))"
  shows "(\<exists>pad. fetch_provider_app Y p r True = Inr pad) \<or>
         (\<exists>d sch. fetch_provider_app Y p r True = Inl (DataValidationError d sch))"
proof (cases "is_leader p")
  case False
  then show ?thesis by (simp add: fetch_provider_app_def)
next
  case True
  with assms obtain bag where bag: "data r (EApp (this_app p)) = Some bag"
    and loads: "\<And>t. bag ''data'' = Some t \<Longrightarrow> safe_load Y t \<noteq> None"
    by (auto simp: readable_def split: option.splits)
  show ?thesis
  proof (cases "truthy_raw (bag ''data'')")
    case False
    then show ?thesis using True bag
      by (simp add: fetch_provider_app_def app_databag_def databag_of_def)
  next
    case raw: True
    then obtain t where t: "bag ''data'' = Some t"
      by (auto simp: truthy_raw_def split: option.splits)
    from loads[OF t] obtain d where d: "safe_load Y t = Some d" by auto
    show ?thesis
    proof (cases "is_valid INGRESS_PROVIDES_APP_SCHEMA d")
      case False
      then show ?thesis using True bag raw t d
        by (simp add: fetch_provider_app_def app_databag_def databag_of_def deserialize_data_def
            validate_data_def)
    next
      case valid: True
      then obtain m where "d = YMap m" unfolding is_valid_provides by blast
      then show ?thesis using True bag raw t d valid
        by (simp add: fetch_provider_app_def app_databag_def databag_of_def deserialize_data_def
            validate_data_def)
    qed
  qed
qed

lemma fetch_remote_units_validated:
  assumes "list_all (\<lambda>u. readable Y r (EUnit u)) us"
  shows "(\<exists>rud. fetch_remote_units Y r True us = Inr rud \<and> map fst rud = us \<and>
                list_all (\<lambda>(u, d). \<exists>m. d = YMap m) rud) \<or>
         (\<exists>d sch. fetch_remote_units Y r True us = Inl (DataValidationError d sch))"
  using assms
proof (induction us)
  case Nil
  then show ?case by simp
next
  case (Cons u us)
  then obtain bag where bag: "data r (EUnit u) = Some bag"
    and loads: "\<And>t. bag ''data'' = Some t \<Longrightarrow> safe_load Y t \<noteq> None"
    by (auto simp: readable_def split: option.splits)
  from Cons have IH:
    "(\<exists>rud. fetch_remote_units Y r True us = Inr rud \<and> map fst rud = us \<and>
            list_all (\<lambda>(u, d). \<exists>m. d = YMap m) rud) \<or>
     (\<exists>d sch. fetch_remote_units Y r True us = Inl (DataValidationError d sch))"
    by simp
  show ?case
  proof (cases "truthy_raw (bag ''data'')")
    case False
    then show ?thesis using bag IH
      by (auto simp: app_databag_def databag_of_def)
  next
    case raw: True
    then obtain t where t: "bag ''data'' = Some t"
      by (auto simp: truthy_raw_def split: option.splits)
    from loads[OF t] obtain d where d: "safe_load Y t = Some d" by auto
    show ?thesis
    proof (cases "is_valid INGRESS_REQUIRES_UNIT_SCHEMA d")
      case False
      then show ?thesis using bag raw t d
        by (simp add: app_databag_def databag_of_def deserialize_data_def validate_data_def)
    next
      case valid: True
      from is_valid_requires_map[OF valid] obtain m where "d = YMap m" ..
      then show ?thesis using bag raw t d valid IH
        by (auto simp: app_databag_def databag_of_def deserialize_data_def validate_data_def)
    qed
  qed
qed

lemma check_models_maps:
  assumes "list_all (\<lambda>(u, d). \<exists>m. d = YMap m) rud"
  shows "check_models r expected rud = Inr False \<or>
         (\<exists>u \<in> set (map fst rud). check_models r expected rud = Inl (RelationDataMismatchError r u))"
  using assms
proof (induction rud arbitrary: expected)
  case Nil
  then show ?case by simp
next
  case (Cons x rud)
  obtain u d where x: "x = (u, d)" by (cases x)
  with Cons.prems obtain m where d: "d = YMap m" and rest: "list_all (\<lambda>(u, d). \<exists>m. d = YMap m) rud"
    by auto
  note IH = Cons.IH[OF rest]
  show ?case
  proof (cases "fmlookup m ''model''")
    case None
    then show ?thesis using x d IH[of expected]
      by (auto simp: fmlookup_dom'_iff)
  next
    case (Some v)
    then show ?thesis using x d IH[of expected] IH[of v]
      by (auto simp: fmlookup_dom'_iff)
  qed
qed

lemma Provider_is_failed_outcome:
  assumes a: "app r = Some a"
    and own: "is_leader p \<longrightarrow> readable Y r (EApp (this_app p))"
    and remote: "list_all (\<lambda>u. readable Y r (EUnit u)) (units r)"
  shows "(\<exists>b. Provider_is_failed Y p r = Inr b) \<or>
         (\<exists>u \<in> set (units r). Provider_is_failed Y p r = Inl (RelationDataMismatchError r u))"
proof (cases "app_name a = [] \<or> units r = []")
  case True
  then show ?thesis using a by (auto simp: Provider_is_failed_def)
next
  case False
  let ?us = "filter (\<lambda>u. u_app u \<noteq> this_app p) (units r)"
  have us: "list_all (\<lambda>u. readable Y r (EUnit u)) ?us"
    using remote by (simp add: list_all_iff)
  from fetch_provider_app_validated[OF own]
  show ?thesis
  proof
    assume "\<exists>d sch. fetch_provider_app Y p r True = Inl (DataValidationError d sch)"
    then show ?thesis using a False
      by (auto simp: Provider_is_failed_def fetch_relation_data_def)
  next
    assume "\<exists>pad. fetch_provider_app Y p r True = Inr pad"
    then obtain pad where pad: "fetch_provider_app Y p r True = Inr pad" ..
    from fetch_remote_units_validated[OF us]
    show ?thesis
    proof
      assume "\<exists>d sch. fetch_remote_units Y r True ?us = Inl (DataValidationError d sch)"
      then show ?thesis using a False pad
        by (auto simp: Provider_is_failed_def fetch_relation_data_def)
    next
      assume "\<exists>rud. fetch_remote_units Y r True ?us = Inr rud \<and> map fst rud = ?us \<and>
                list_all (\<lambda>(u, d). \<exists>m. d = YMap m) rud"
      then obtain rud where rud: "fetch_remote_units Y r True ?us = Inr rud"
        and fst: "map fst rud = ?us" and maps: "list_all (\<lambda>(u, d). \<exists>m. d = YMap m) rud"
        by blast
      have res: "Provider_is_failed Y p r = check_models r YNull rud"
        using a False pad rud by (simp add: Provider_is_failed_def fetch_relation_data_def)
      from check_models_maps[OF maps, of r YNull] show ?thesis
        unfolding res fst by auto
    qed
  qed
qed

lemma Provider_is_failed_absorbs:
  assumes "app r = Some a" and "app_name a \<noteq> []" and "units r \<noteq> []"
    and "fetch_relation_data Y p r True = Inl (DataValidationError d sch)"
  shows "Provider_is_failed Y p r = Inr True"
  using assms by (simp add: Provider_is_failed_def)

lemma Requirer_is_failed_returns:
  assumes a: "app r = Some a"
    and own: "case Requirer_relation q of None \<Rightarrow> True
              | Some r0 \<Rightarrow> readable Y r0 (EUnit (this_unit q))"
  shows "\<exists>b. Requirer_is_failed Y q r = Inr b"
proof (cases "relations q")
  case Nil
  then show ?thesis by (auto simp: Requirer_is_failed_def)
next
  case (Cons r0 rest)
  with own obtain bag where bag: "data r0 (EUnit (this_unit q)) = Some bag"
    and loads: "\<And>t. bag ''data'' = Some t \<Longrightarrow> safe_load Y t \<noteq> None"
    by (auto simp: readable_def Requirer_relation_def split: option.splits)
  show ?thesis
  proof (cases "truthy_raw (bag ''data'')")
    case False
    then show ?thesis using a Cons bag
      by (auto simp: Requirer_is_failed_def Requirer_relation_def app_databag_def databag_of_def)
  next
    case raw: True
    then obtain t where t: "bag ''data'' = Some t"
      by (auto simp: truthy_raw_def split: option.splits)
    from loads[OF t] obtain d where d: "safe_load Y t = Some d" by auto
    show ?thesis using a Cons bag raw t d
      by (auto simp: Requirer_is_failed_def Requirer_relation_def app_databag_def databag_of_def
          deserialize_data_def validate_data_def)
  qed
qed

text \<open>
  C1 (as stated). No predicate would ever raise. On the relation whose two units
  publish different models, the provider's \<^verbatim>\<open>is_failed\<close> returns no boolean.
\<close>

theorem Provider_is_failed_raises_counterexample:
  "\<not> (\<exists>b. Provider_is_failed demo_yaml demo_leader mismatch_relation = Inr b)"
  by (simp add: Provider_is_failed_mismatch_demo)

text \<open>
  C1 (amended). On a relation whose remote application is present: \<^verbatim>\<open>is_available\<close>
  and the provider's \<^verbatim>\<open>is_ready\<close> return a boolean; when the databags that it reads
  exist and hold text that the YAML loader accepts, the provider's \<^verbatim>\<open>is_failed\<close>
  returns a boolean or raises RelationDataMismatchError for a unit of the relation, and
  a validation error of the validated fetch makes it return true; when the requirer's
  own databag can be read, the requirer's \<^verbatim>\<open>is_failed\<close> returns a boolean.
\<close>

theorem predicates_raise_by_design:
  assumes "app r = Some a"
  shows "(\<exists>b. is_available r = Inr b) \<and>
         (\<exists>b. Provider_is_ready Y p r = Inr b) \<and>
         ((is_leader p \<longrightarrow> readable Y r (EApp (this_app p))) \<and>
          list_all (\<lambda>u. readable Y r (EUnit u)) (units r) \<longrightarrow>
            (\<exists>b. Provider_is_failed Y p r = Inr b) \<or>
            (\<exists>u \<in> set (units r).
               Provider_is_failed Y p r = Inl (RelationDataMismatchError r u))) \<and>
         (\<forall>d sch. app_name a \<noteq> [] \<and> units r \<noteq> [] \<and>
                   fetch_relation_data Y p r True = Inl (DataValidationError d sch) \<longrightarrow>
            Provider_is_failed Y p r = Inr True) \<and>
         ((case Requirer_relation q of
             None \<Rightarrow> True
           | Some r0 \<Rightarrow> readable Y r0 (EUnit (this_unit q))) \<longrightarrow>
            (\<exists>b. Requirer_is_failed Y q r = Inr b))"
proof (intro conjI impI allI)
  show "\<exists>b. is_available r = Inr b"
    using assms by (auto simp: is_available_def)
  show "\<exists>b. Provider_is_ready Y p r = Inr b"
    by (rule Provider_is_ready_returns)
  show "(\<exists>b. Provider_is_failed Y p r = Inr b) \<or>
        (\<exists>u \<in> set (units r). Provider_is_failed Y p r = Inl (RelationDataMismatchError r u))"
    if "(is_leader p \<longrightarrow> readable Y r (EApp (this_app p))) \<and>
        list_all (\<lambda>u. readable Y r (EUnit u)) (units r)"
    using that Provider_is_failed_outcome[OF assms, of p Y] by blast
  show "Provider_is_failed Y p r = Inr True"
    if "app_name a \<noteq> [] \<and> units r \<noteq> [] \<and>
        fetch_relation_data Y p r True = Inl (DataValidationError d sch)" for d sch
    using that Provider_is_failed_absorbs[OF assms, of Y p d sch] by blast
  show "\<exists>b. Requirer_is_failed Y q r = Inr b"
    if "case Requirer_relation q of None \<Rightarrow> True | Some r0 \<Rightarrow> readable Y r0 (EUnit (this_unit q))"
    using that Requirer_is_failed_returns[OF assms] by blast
qed

lemma fetch_corrupt:
  "fetch_relation_data demo_yaml demo_leader corrupt_relation True
     = Inl (DataValidationError bad INGRESS_PROVIDES_APP_SCHEMA)"
  by (simp add: fetch_relation_data_def fetch_provider_app_def app_databag_def databag_of_def demo_leader_def
      corrupt_relation_def set_app_data_def fresh_relation_def web_def truthy_raw_def
      text_nonempty deserialize_data_def demo_load_simps validate_data_def not_is_valid_bad)

lemma readable_mismatch:
  "readable demo_yaml mismatch_relation (EApp (this_app demo_leader))"
  "list_all (\<lambda>u. readable demo_yaml mismatch_relation (EUnit u)) (units mismatch_relation)"
  by (simp_all add: readable_def mismatch_relation_def demo_leader_def demo_load_simps
      unit_apps)

lemma readable_stale:
  "case Requirer_relation demo_requirer of
     None \<Rightarrow> True
   | Some r0 \<Rightarrow> readable demo_yaml r0 (EUnit (this_unit demo_requirer))"
  by (simp add: Requirer_relation_def demo_requirer_def Requirer_init_def readable_def
      stale_relation_def)

lemma Requirer_is_failed_demo:
  "Requirer_is_failed demo_yaml demo_requirer stale_relation = Inr False"
proof -
  have "relations demo_requirer = [stale_relation]" "this_unit demo_requirer = web0"
    by (simp_all add: demo_requirer_def Requirer_init_def)
  moreover have "app stale_relation = Some traefik" "app_name traefik \<noteq> []"
    "units stale_relation \<noteq> []" "data stale_relation (EUnit web0) = Some Map.empty"
    by (simp_all add: stale_relation_def traefik_def)
  ultimately show ?thesis
    by (simp add: Requirer_is_failed_def Requirer_relation_def app_databag_def databag_of_def truthy_raw_def)
qed

theorem predicates_raise_by_design_witness:
  "is_available mismatch_relation = Inr True \<and>
   Provider_is_failed demo_yaml demo_leader corrupt_relation = Inr True \<and>
   Provider_is_failed demo_yaml demo_leader mismatch_relation
     = Inl (RelationDataMismatchError mismatch_relation web1) \<and>
   Requirer_is_failed demo_yaml demo_requirer stale_relation = Inr False"
proof -
  have am: "app mismatch_relation = Some web" and ac: "app corrupt_relation = Some web"
    and as: "app stale_relation = Some traefik"
    by (simp_all add: mismatch_relation_def corrupt_relation_def set_app_data_def
        fresh_relation_def stale_relation_def)
  have nm: "app_name web \<noteq> []" and uc: "units corrupt_relation \<noteq> []"
    by (simp_all add: web_def corrupt_relation_def set_app_data_def fresh_relation_def)
  note m = predicates_raise_by_design [OF am, of demo_yaml demo_leader demo_requirer]
  note c = predicates_raise_by_design [OF ac, of demo_yaml demo_leader demo_requirer]
  note s = predicates_raise_by_design [OF as, of demo_yaml demo_leader demo_requirer]
  have 1: "is_available mismatch_relation = Inr True"
    using m by (simp add: is_available_def am nm)
  have 2: "Provider_is_failed demo_yaml demo_leader corrupt_relation = Inr True"
    using c nm uc fetch_corrupt by blast
  have "(\<exists>b. Provider_is_failed demo_yaml demo_leader mismatch_relation = Inr b) \<or>
        (\<exists>u \<in> set (units mismatch_relation).
           Provider_is_failed demo_yaml demo_leader mismatch_relation
             = Inl (RelationDataMismatchError mismatch_relation u))"
    using m readable_mismatch by blast
  then have 3: "Provider_is_failed demo_yaml demo_leader mismatch_relation
                  = Inl (RelationDataMismatchError mismatch_relation web1)"
    by (simp add: Provider_is_failed_mismatch_demo)
  have "\<exists>b. Requirer_is_failed demo_yaml demo_requirer stale_relation = Inr b"
    using s readable_stale by blast
  then have 4: "Requirer_is_failed demo_yaml demo_requirer stale_relation = Inr False"
    by (simp add: Requirer_is_failed_demo)
  from 1 2 3 4 show ?thesis by simp
qed

end
